theory Spec2Isabelle
  imports Main
begin

section \<open>Python strings\<close>

text \<open>
  A Python \<open>str\<close> is a sequence of Unicode code points, so it is modelled as a list of
  natural numbers. \<open>ustr\<close> turns an ASCII literal into such a list; code points beyond
  ASCII are written as numbers (U+2013 EN DASH is 8211, U+2014 EM DASH is 8212).
\<close>

type_synonym pystr = "nat list"

definition ustr :: "string \<Rightarrow> pystr" where
  "ustr s = map of_char s"

definition en_dash :: nat where "en_dash = 8211"
definition em_dash :: nat where "em_dash = 8212"

text \<open>
  \<open>str.isspace\<close> on one code point, which is also what \<open>\s\<close> matches in a \<open>str\<close>
  pattern and what \<open>str.strip()\<close> removes.
\<close>

definition is_space :: "nat \<Rightarrow> bool" where
  "is_space c = ((9 \<le> c \<and> c \<le> 13) \<or> (28 \<le> c \<and> c \<le> 32) \<or> c = 133 \<or> c = 160
     \<or> c = 5760 \<or> (8192 \<le> c \<and> c \<le> 8202) \<or> c = 8232 \<or> c = 8233 \<or> c = 8239
     \<or> c = 8287 \<or> c = 12288)"

text \<open>
  The decimal digits (Unicode category Nd, Unicode 14 as in CPython 3.11), which is what
  \<open>\d\<close> matches in a \<open>str\<close> pattern: each entry starts a run of digits zero to nine,
  and U+1D7CE starts five such runs in a row.
\<close>

definition decimal_bases :: "nat list" where
  "decimal_bases = [48, 1632, 1776, 1984, 2406, 2534, 2662, 2790, 2918, 3046, 3174, 3302,
     3430, 3558, 3664, 3792, 3872, 4160, 4240, 6112, 6160, 6470, 6608, 6784, 6800, 6992,
     7088, 7232, 7248, 42528, 43216, 43264, 43472, 43504, 43600, 44016, 65296, 66720,
     68912, 69734, 69872, 69942, 70096, 70384, 70736, 70864, 71248, 71360, 71472, 71904,
     72016, 72784, 73040, 73120, 92768, 92864, 93008, 120782, 120792, 120802, 120812,
     120822, 123200, 123632, 125264, 130032]"

definition is_decimal :: "nat \<Rightarrow> bool" where
  "is_decimal c = list_ex (\<lambda>b. b \<le> c \<and> c < b + 10) decimal_bases"

text \<open>The line boundaries of \<open>str.splitlines()\<close>.\<close>

definition is_linebreak :: "nat \<Rightarrow> bool" where
  "is_linebreak c = ((10 \<le> c \<and> c \<le> 13) \<or> (28 \<le> c \<and> c \<le> 30) \<or> c = 133
     \<or> c = 8232 \<or> c = 8233)"

text \<open>
  \<open>str.splitlines()\<close>: the text is cut at every line boundary, \<open>\r\n\<close> counting as one,
  the boundaries are dropped, and a boundary at the very end opens no further line.
\<close>

fun splitlines :: "pystr \<Rightarrow> pystr list" where
  "splitlines [] = []"
| "splitlines (c # cs) =
     (if is_linebreak c then
        (case cs of
           d # ds \<Rightarrow> if c = 13 \<and> d = 10 then [] # splitlines ds else [] # splitlines cs
         | [] \<Rightarrow> [[]])
      else
        (case splitlines cs of
           [] \<Rightarrow> [[c]]
         | l # ls \<Rightarrow> (c # l) # ls))"

text \<open>\<open>s.strip()\<close>, \<open>s.rstrip(chars)\<close> and \<open>s.replace(old, new)\<close> for single characters.\<close>

definition strip :: "pystr \<Rightarrow> pystr" where
  "strip s = rev (dropWhile is_space (rev (dropWhile is_space s)))"

definition rstrip_chars :: "pystr \<Rightarrow> pystr \<Rightarrow> pystr" where
  "rstrip_chars chars s = rev (dropWhile (\<lambda>c. c \<in> set chars) (rev s))"

definition replace_char :: "nat \<Rightarrow> nat \<Rightarrow> pystr \<Rightarrow> pystr" where
  "replace_char old new s = map (\<lambda>c. if c = old then new else c) s"

section \<open>Regular expressions as backtracking matchers\<close>

text \<open>
  A matcher maps the text still to be read to the list of texts that can remain after it,
  in the order in which Python's backtracking engine tries them: a greedy repetition
  offers its longest match first. \<open>re.match\<close> takes the first way through the whole
  pattern that succeeds.
\<close>

type_synonym matcher = "pystr \<Rightarrow> pystr list"

fun one :: "(nat \<Rightarrow> bool) \<Rightarrow> matcher" where
  "one P [] = []"
| "one P (c # cs) = (if P c then [cs] else [])"

fun star :: "(nat \<Rightarrow> bool) \<Rightarrow> matcher" where
  "star P [] = [[]]"
| "star P (c # cs) = (if P c then star P cs @ [c # cs] else [c # cs])"

fun at_most :: "nat \<Rightarrow> (nat \<Rightarrow> bool) \<Rightarrow> matcher" where
  "at_most 0 P s = [s]"
| "at_most (Suc n) P [] = [[]]"
| "at_most (Suc n) P (c # cs) = (if P c then at_most n P cs @ [c # cs] else [c # cs])"

definition seq :: "matcher \<Rightarrow> matcher \<Rightarrow> matcher" where
  "seq p q s = concat (map q (p s))"

definition alt :: "matcher \<Rightarrow> matcher \<Rightarrow> matcher" where
  "alt p q s = p s @ q s"

definition opt :: "matcher \<Rightarrow> matcher" where
  "opt p s = p s @ [s]"

definition plus :: "(nat \<Rightarrow> bool) \<Rightarrow> matcher" where
  "plus P = seq (one P) (star P)"

text \<open>
  A letter of the pattern under \<open>re.IGNORECASE\<close>: the letters of the word Chapter have no
  case variants outside ASCII, so each matches itself in upper and in lower case.
\<close>

definition ascii_lower :: "nat \<Rightarrow> nat" where
  "ascii_lower c = (if 65 \<le> c \<and> c \<le> 90 then c + 32 else c)"

fun lit_ci :: "pystr \<Rightarrow> matcher" where
  "lit_ci [] s = [s]"
| "lit_ci (p # ps) [] = []"
| "lit_ci (p # ps) (c # cs) = (if ascii_lower c = ascii_lower p then lit_ci ps cs else [])"

text \<open>\<open>.\<close> matches any character but the newline; \<open>$\<close> holds at the end of the text and
  just before a newline that ends it.\<close>

definition any_char :: "nat \<Rightarrow> bool" where
  "any_char c = (c \<noteq> 10)"

definition at_end :: "pystr \<Rightarrow> bool" where
  "at_end r = (r = [] \<or> r = [10])"

text \<open>
  The part of the chapter pattern before the title,
  \<open>^(?:#{2,6}\s+|[-*]\s+)?Chapter\s+(\d+)\s*[U+2013 -]\s*\<close>, where the class holds U+2013
  and the hyphen.
\<close>

definition is_hash :: "nat \<Rightarrow> bool" where "is_hash c = (c = 35)"
definition is_bullet :: "nat \<Rightarrow> bool" where "is_bullet c = (c = 45 \<or> c = 42)"
definition is_sep :: "nat \<Rightarrow> bool" where "is_sep c = (c = en_dash \<or> c = 45)"

definition marker :: matcher where
  "marker = alt (seq (one is_hash) (seq (one is_hash) (seq (at_most (Suc (Suc (Suc (Suc 0)))) is_hash) (plus is_space))))
                (seq (one is_bullet) (plus is_space))"

definition chapter_head :: matcher where
  "chapter_head =
     seq (opt marker) (seq (lit_ci (ustr ''Chapter'')) (seq (plus is_space)
       (seq (plus is_decimal) (seq (star is_space) (seq (one is_sep) (star is_space))))))"

text \<open>
  \<open>chapter_re s\<close> is \<open>m.group(2)\<close> for \<open>m = re.match(pattern, s, re.IGNORECASE)\<close>, and
  \<open>None\<close> when the pattern does not match: after the head, \<open>(.+)$\<close> captures what it
  reads, and the first way through that ends at \<open>$\<close> is the match.
\<close>

definition captures :: "(nat \<Rightarrow> bool) \<Rightarrow> pystr \<Rightarrow> (pystr \<times> pystr) list" where
  "captures P s = map (\<lambda>r. (take (length s - length r) s, r)) (plus P s)"

definition chapter_re :: "pystr \<Rightarrow> pystr option" where
  "chapter_re s =
     (case filter (\<lambda>(g, r). at_end r) (concat (map (captures any_char) (chapter_head s))) of
        [] \<Rightarrow> None
      | (g, r) # _ \<Rightarrow> Some g)"

text \<open>\<open>re.match(r'^\d+\.\d+', title)\<close> finds a match.\<close>

definition is_dot :: "nat \<Rightarrow> bool" where "is_dot c = (c = 46)"

definition subnumbered :: "pystr \<Rightarrow> bool" where
  "subnumbered title = (seq (plus is_decimal) (seq (one is_dot) (plus is_decimal)) title \<noteq> [])"

section \<open>The Heading Extractor\<close>

text \<open>
  One round of the loop of \<open>extract_chapter_titles\<close>: \<open>titles\<close> is the list built so far,
  \<open>raw\<close> the next line of the outline.
\<close>

definition clean_title :: "pystr \<Rightarrow> pystr" where
  "clean_title g = strip (rstrip_chars (ustr ''.'') (strip g))"

definition extract_step :: "pystr list \<Rightarrow> pystr \<Rightarrow> pystr list" where
  "extract_step titles raw =
     (let line = strip raw in
      if line = [] then titles
      else
        let norm = replace_char em_dash en_dash line in
        (case chapter_re norm of
           None \<Rightarrow> titles
         | Some g \<Rightarrow>
             let title = clean_title g in
             if \<not> subnumbered title then
               (if title \<noteq> [] \<and> title \<notin> set titles then titles @ [title] else titles)
             else titles))"

definition extract_chapter_titles :: "pystr \<Rightarrow> pystr list" where
  "extract_chapter_titles outline = foldl extract_step [] (splitlines outline)"


section \<open>What one line contributes\<close>

text \<open>
  \<open>candidate raw\<close> is the title that the line \<open>raw\<close> offers to the list: none when the
  line is blank, does not match the chapter pattern, has a sub-numbered title or an empty
  one. \<open>first_occurrences\<close> keeps, of every element of a list, the first occurrence only.
\<close>

definition candidate :: "pystr \<Rightarrow> pystr option" where
  "candidate raw =
     (case chapter_re (replace_char em_dash en_dash (strip raw)) of
        None \<Rightarrow> None
      | Some g \<Rightarrow>
          if subnumbered (clean_title g) \<or> clean_title g = [] then None
          else Some (clean_title g))"

definition insert_new :: "'a list \<Rightarrow> 'a \<Rightarrow> 'a list" where
  "insert_new acc t = (if t \<in> set acc then acc else acc @ [t])"

primrec first_occurrences :: "'a list \<Rightarrow> 'a list" where
  "first_occurrences [] = []"
| "first_occurrences (x # xs) = x # filter (\<lambda>y. y \<noteq> x) (first_occurrences xs)"

definition matches_chapter :: "pystr \<Rightarrow> bool" where
  "matches_chapter raw = (chapter_re (replace_char em_dash en_dash (strip raw)) \<noteq> None)"

text \<open>
  Reading a text file back in text mode (\<open>Path.read_text\<close>) turns \<open>\r\n\<close> and a lone
  \<open>\r\<close> into \<open>\n\<close>.
\<close>

fun universal_newlines :: "pystr \<Rightarrow> pystr" where
  "universal_newlines [] = []"
| "universal_newlines (c # cs) =
     (if c = 13 then
        (case cs of
           d # ds \<Rightarrow> if d = 10 then 10 # universal_newlines ds else 10 # universal_newlines cs
         | [] \<Rightarrow> [10])
      else c # universal_newlines cs)"




section \<open>Python values\<close>

text \<open>
  Exceptions are values: a function that can raise returns \<open>error + 'a\<close>, with \<open>Inl\<close>
  for the exception. \<open>BackendError\<close> stands for whatever a backend raises.
\<close>

datatype error = KeyError pystr | IndexError | AttributeError | TypeError | ValueError
  | BackendError pystr

text \<open>
  The values a configuration holds (\<open>Dict[str, Any]\<close>). \<open>VObj text truth\<close> is any other
  object (a list, a mapping, a float, a date read from YAML), of which the program only
  ever uses the \<open>str()\<close> text and the truth value.
\<close>

datatype pyval = VNone | VBool bool | VInt int | VStr pystr | VObj pystr bool

type_synonym config = "pystr \<rightharpoonup> pyval"

definition truthy :: "pyval \<Rightarrow> bool" where
  "truthy v = (case v of VNone \<Rightarrow> False | VBool b \<Rightarrow> b | VInt i \<Rightarrow> i \<noteq> 0
     | VStr s \<Rightarrow> s \<noteq> [] | VObj t b \<Rightarrow> b)"

fun str_nat :: "nat \<Rightarrow> pystr" where
  "str_nat n = (if n < 10 then [48 + n] else str_nat (n div 10) @ [48 + n mod 10])"

declare str_nat.simps [simp del]

definition str_int :: "int \<Rightarrow> pystr" where
  "str_int i = (if i < 0 then 45 # str_nat (nat (- i)) else str_nat (nat i))"

text \<open>\<open>str(v)\<close>, which is what an f-string puts in place of \<open>{v}\<close>.\<close>

definition py_str :: "pyval \<Rightarrow> pystr" where
  "py_str v = (case v of VNone \<Rightarrow> ustr ''None''
     | VBool b \<Rightarrow> (if b then ustr ''True'' else ustr ''False'')
     | VInt i \<Rightarrow> str_int i | VStr s \<Rightarrow> s | VObj t b \<Rightarrow> t)"

text \<open>\<open>d[key]\<close> raises \<open>KeyError\<close> on a missing key.\<close>

definition getitem :: "config \<Rightarrow> pystr \<Rightarrow> error + pyval" where
  "getitem d key = (case d key of None \<Rightarrow> Inl (KeyError key) | Some v \<Rightarrow> Inr v)"

section \<open>More string operations\<close>

fun startswith :: "pystr \<Rightarrow> pystr \<Rightarrow> bool" where
  "startswith s [] = True"
| "startswith [] (p # ps) = False"
| "startswith (c # cs) (p # ps) = (c = p \<and> startswith cs ps)"

text \<open>\<open>contains sub s\<close> is \<open>sub in s\<close>.\<close>

fun contains :: "pystr \<Rightarrow> pystr \<Rightarrow> bool" where
  "contains sub [] = (sub = [])"
| "contains sub (c # cs) = (if startswith (c # cs) sub then True else contains sub cs)"

text \<open>
  \<open>s.split(sep)\<close> for a separator that is not empty (it is a literal at every call):
  the text is cut at the occurrences of \<open>sep\<close>, found from left to right.
\<close>

function split_from :: "pystr \<Rightarrow> pystr \<Rightarrow> pystr \<Rightarrow> pystr list" where
  "split_from sep cur [] = [cur]"
| "split_from sep cur (c # cs) =
     (if sep \<noteq> [] \<and> startswith (c # cs) sep
      then cur # split_from sep [] (drop (length sep) (c # cs))
      else split_from sep (cur @ [c]) cs)"
  by pat_completeness auto
termination
  by (relation "measure (\<lambda>(sep, cur, s). length s)") auto

definition split :: "pystr \<Rightarrow> pystr \<Rightarrow> pystr list" where
  "split sep s = split_from sep [] s"

text \<open>\<open>s.split()\<close>: the words of \<open>s\<close>, cut at runs of whitespace.\<close>

fun words_from :: "pystr \<Rightarrow> pystr \<Rightarrow> pystr list" where
  "words_from cur [] = (if cur = [] then [] else [cur])"
| "words_from cur (c # cs) =
     (if is_space c then (if cur = [] then words_from [] cs else cur # words_from [] cs)
      else words_from (cur @ [c]) cs)"

definition split_ws :: "pystr \<Rightarrow> pystr list" where
  "split_ws s = words_from [] s"

text \<open>
  \<open>s.lower()\<close>. The code only ever looks for ASCII words in the result. The ASCII capitals
  are lowered; U+0130 and U+212A are the only other code points whose lower case has an
  ASCII letter in it. Every other code point has a lower case without ASCII letters and
  is left as it is, which does not change where ASCII words occur.
\<close>

definition lower_cp :: "nat \<Rightarrow> pystr" where
  "lower_cp c = (if 65 \<le> c \<and> c \<le> 90 then [c + 32]
     else if c = 304 then [105, 775] else if c = 8490 then [107] else [c])"

definition lower :: "pystr \<Rightarrow> pystr" where
  "lower s = concat (map lower_cp s)"

text \<open>
  \<open>s.title()\<close> on ASCII text: a letter that follows a letter is lowered, any other letter
  is raised. Code points beyond ASCII are copied and end a word (their case forms are in
  the Unicode tables, which the model does not hold).
\<close>

definition is_ascii_letter :: "nat \<Rightarrow> bool" where
  "is_ascii_letter c = ((65 \<le> c \<and> c \<le> 90) \<or> (97 \<le> c \<and> c \<le> 122))"

definition ascii_upper :: "nat \<Rightarrow> nat" where
  "ascii_upper c = (if 97 \<le> c \<and> c \<le> 122 then c - 32 else c)"

fun title_from :: "bool \<Rightarrow> pystr \<Rightarrow> pystr" where
  "title_from previous_is_cased [] = []"
| "title_from previous_is_cased (c # cs) =
     (if previous_is_cased then ascii_lower c else ascii_upper c)
       # title_from (is_ascii_letter c) cs"

definition title :: "pystr \<Rightarrow> pystr" where
  "title s = title_from False s"

text \<open>\<open>sep.join(items)\<close> for a list of strings.\<close>

fun join :: "pystr \<Rightarrow> pystr list \<Rightarrow> pystr" where
  "join sep [] = []"
| "join sep [x] = x"
| "join sep (x # y # ys) = x @ sep @ join sep (y # ys)"

section \<open>The Configuration Builder\<close>

text \<open>
  A generation backend: \<open>generate(prompt)\<close> and \<open>stream_generate(prompt, on_delta)\<close>, each
  returning the text or raising. The fragments handed to \<open>on_delta\<close> only go to the
  terminal and are not modelled, nor is anything else the program prints.
\<close>

record llm_client =
  generate :: "pystr \<Rightarrow> error + pystr"
  stream_generate :: "pystr \<Rightarrow> error + pystr"

text \<open>
  \<open>generate_default_config\<close>. The flags \<open>is_fitness\<close> and \<open>is_wellness\<close> of the source are
  computed and never used. \<open>topic.split()[0]\<close> raises \<open>IndexError\<close> when the topic is not
  empty and holds whitespace only.
\<close>

definition generate_default_config :: "pystr \<Rightarrow> error + config" where
  "generate_default_config topic =
     (let is_beginner = (contains (ustr ''beginner'') (lower topic)
                          \<or> contains (ustr ''start'') (lower topic)) in
      case (if topic \<noteq> [] then (case split_ws topic of [] \<Rightarrow> Inl IndexError | w # ws \<Rightarrow> Inr w)
            else Inr (ustr ''wellness'')) of
        Inl e \<Rightarrow> Inl e
      | Inr main_keyword \<Rightarrow> Inr
          [ustr ''topic'' \<mapsto> VStr topic,
           ustr ''main_keyword'' \<mapsto> VStr main_keyword,
           ustr ''theme'' \<mapsto> VStr (if is_beginner then ustr ''beginner-friendly transformation''
                                    else ustr ''science-backed sustainable change''),
           ustr ''target_audience'' \<mapsto>
             VStr (ustr ''busy professionals aged 30-50 seeking practical solutions''),
           ustr ''tone'' \<mapsto> VStr (ustr ''empowering''),
           ustr ''mood'' \<mapsto> VStr (ustr ''motivational''),
           ustr ''distribution_platform'' \<mapsto> VStr (ustr ''Amazon KDP''),
           ustr ''primary_format'' \<mapsto> VStr (ustr ''Kindle''),
           ustr ''chapter_length'' \<mapsto> VInt 2000,
           ustr ''interactive_elements_included'' \<mapsto>
             VStr (ustr ''Printable Tracker, Progress Checklist, Habit Worksheet'')])"

text \<open>The meta-prompt of stage 0, an f-string with the topic in it.\<close>

definition config_prompt :: "pystr \<Rightarrow> pystr" where
  "config_prompt topic =
     ustr ''You are an expert eBook strategist and market analyst. Your task is to'' @
     ustr '' analyze a topic and generate optimal configuration parameters for an '' @
     ustr ''automated eBook generation system.\<newline>'' @ ustr ''\<newline>'' @
     ustr ''Given Topic: ''
     @ topic @
     ustr ''\<newline>'' @ ustr ''\<newline>'' @
     ustr ''Analyze this topic and generate the following parameters in valid YAML'' @
     ustr '' format. Be strategic, market-aware, and ensure all parameters work co'' @
     ustr ''hesively together.\<newline>'' @ ustr ''\<newline>'' @
     ustr ''Required Output Format (YAML only, no explanations):\<newline>'' @
     ustr ''\<newline>'' @ [96, 96, 96] @ ustr ''yaml\<newline>'' @ ustr ''topic: '' @
     [34] @ ustr ''[refined topic optimized for market demand]'' @ [34] @
     ustr ''\<newline>'' @ ustr ''main_keyword: '' @ [34] @
     ustr ''[primary SEO keyword with 12M+ search volume]'' @ [34] @ ustr ''\<newline>'' @
     ustr ''theme: '' @ [34] @ ustr ''[overarching theme/approach]'' @ [34] @
     ustr ''\<newline>'' @ ustr ''target_audience: '' @ [34] @
     ustr ''[specific demographic and psychographic profile]'' @ [34] @
     ustr ''\<newline>'' @ ustr ''tone: '' @ [34] @
     ustr ''[empowering/conversational/authoritative/inspiring/supportive/motivati'' @
     ustr ''onal]'' @ [34] @ ustr ''\<newline>'' @ ustr ''mood: '' @ [34] @
     ustr ''[motivational/calming/energetic/supportive/uplifting/confident]'' @ [34] @
     ustr ''\<newline>'' @ ustr ''distribution_platform: '' @ [34] @
     ustr ''[Amazon KDP/Gumroad/Etsy/Self-hosted]'' @ [34] @ ustr ''\<newline>'' @
     ustr ''primary_format: '' @ [34] @ ustr ''[PDF/EPUB/Kindle/Interactive PDF]'' @ [34] @
     ustr ''\<newline>'' @
     ustr ''chapter_length: [1500-2500 word count as integer]\<newline>'' @
     ustr ''interactive_elements_included: '' @ [34] @
     ustr ''[comma-separated list of: Printable Tracker, Guided Journal Page, Prog'' @
     ustr ''ress Checklist, Habit Worksheet, Milestone Calendar]'' @ [34] @
     ustr ''\<newline>'' @ [96, 96, 96] @ ustr ''\<newline>'' @ ustr ''\<newline>'' @
     ustr ''Instructions:\<newline>'' @
     ustr ''1. Refine the topic to be more market-focused and specific\<newline>'' @
     ustr ''2. Choose a main_keyword with proven search demand (12M+ results)\<newline>'' @
     ustr ''3. Select a theme that resonates with target audience pain points\<newline>'' @
     ustr ''4. Define target_audience with specific age range, lifestyle, and chal'' @
     ustr ''lenges\<newline>'' @ ustr ''5. Choose tone and mood that match the audience'' @
     [39] @ ustr ''s emotional needs\<newline>'' @
     ustr ''6. Recommend the best distribution_platform based on topic and audienc'' @
     ustr ''e\<newline>'' @
     ustr ''7. Select primary_format compatible with chosen platform\<newline>'' @
     ustr ''8. Set chapter_length appropriate for topic depth (recommend 2000 for '' @
     ustr ''balance)\<newline>'' @
     ustr ''9. Choose 2-3 interactive_elements that enhance engagement\<newline>'' @
     ustr ''\<newline>'' @ ustr ''Output only the YAML block. No additional commentary.''"

text \<open>
  The text between the first pair of fence markers, a fence tagged \<open>yaml\<close> first, else any
  fence, else the whole reply.
\<close>

definition fence :: pystr where "fence = [96, 96, 96]"

definition extract_yaml_block :: "pystr \<Rightarrow> error + pystr" where
  "extract_yaml_block config_yaml =
     (if contains (fence @ ustr ''yaml'') config_yaml then
        (case split (fence @ ustr ''yaml'') config_yaml of
           a # b # rest \<Rightarrow> (case split fence b of [] \<Rightarrow> Inl IndexError | x # xs \<Rightarrow> Inr (strip x))
         | _ \<Rightarrow> Inl IndexError)
      else if contains fence config_yaml then
        (case split fence config_yaml of
           a # b # rest \<Rightarrow> (case split fence b of [] \<Rightarrow> Inl IndexError | x # xs \<Rightarrow> Inr (strip x))
         | _ \<Rightarrow> Inl IndexError)
      else Inr config_yaml)"

text \<open>
  \<open>yaml.safe_load\<close> belongs to a library and is a parameter of the model: it raises, or
  returns a mapping or something else.
\<close>

datatype loaded = LDict config | LOther

text \<open>The body of the \<open>try\<close> block: any exception in it is caught by the handler.\<close>

definition parse_reply :: "(pystr \<Rightarrow> error + loaded) \<Rightarrow> pystr \<Rightarrow> error + config" where
  "parse_reply safe_load config_yaml =
     (case extract_yaml_block config_yaml of
        Inl e \<Rightarrow> Inl e
      | Inr block \<Rightarrow>
          (case safe_load block of
             Inl e \<Rightarrow> Inl e
           | Inr (LDict config) \<Rightarrow> Inr config
           | Inr LOther \<Rightarrow> Inl ValueError))"

definition add_system_defaults :: "config \<Rightarrow> config" where
  "add_system_defaults config =
     config(ustr ''min_search_results'' \<mapsto> VInt 12000000, ustr ''num_chapters'' \<mapsto> VInt 5)"

text \<open>
  \<open>generate_config_from_topic\<close>. The call of \<open>generate\<close> stands before the \<open>try\<close>, so
  what it raises reaches the caller; the handler calls \<open>generate_default_config\<close>, and
  what that raises reaches the caller too. The second \<open>isinstance\<close> test of the source
  always holds.
\<close>

definition generate_config_from_topic ::
    "(pystr \<Rightarrow> error + loaded) \<Rightarrow> pystr \<Rightarrow> llm_client option \<Rightarrow> error + config" where
  "generate_config_from_topic safe_load topic client =
     (case client of
        Some c \<Rightarrow>
          (case generate c (config_prompt topic) of
             Inl e \<Rightarrow> Inl e
           | Inr config_yaml \<Rightarrow>
               (case parse_reply safe_load config_yaml of
                  Inl e \<Rightarrow>
                    (case generate_default_config topic of
                       Inl e' \<Rightarrow> Inl e'
                     | Inr config \<Rightarrow> Inr (add_system_defaults config))
                | Inr config \<Rightarrow> Inr (add_system_defaults config)))
      | None \<Rightarrow>
          (case generate_default_config topic of
             Inl e \<Rightarrow> Inl e
           | Inr config \<Rightarrow> Inr (add_system_defaults config)))"

section \<open>The Template Applier\<close>

definition apply_template_defaults :: "config \<Rightarrow> pystr \<Rightarrow> config" where
  "apply_template_defaults config template =
     (if template = ustr ''standard'' then
        config(ustr ''intro_min_words'' \<mapsto> VInt 600, ustr ''intro_max_words'' \<mapsto> VInt 900,
               ustr ''num_chapters'' \<mapsto> VInt 5, ustr ''chapter_length'' \<mapsto> VInt 1200,
               ustr ''final_min_words'' \<mapsto> VInt 600, ustr ''final_max_words'' \<mapsto> VInt 900,
               ustr ''review_min_words'' \<mapsto> VInt 300, ustr ''review_max_words'' \<mapsto> VInt 500)
      else if template = ustr ''quickstart'' then
        config(ustr ''intro_min_words'' \<mapsto> VInt 300, ustr ''intro_max_words'' \<mapsto> VInt 500,
               ustr ''num_chapters'' \<mapsto> VInt 3, ustr ''chapter_length'' \<mapsto> VInt 800,
               ustr ''final_min_words'' \<mapsto> VInt 300, ustr ''final_max_words'' \<mapsto> VInt 500,
               ustr ''review_min_words'' \<mapsto> VInt 150, ustr ''review_max_words'' \<mapsto> VInt 250)
      else if template = ustr ''deepdive'' then
        config(ustr ''intro_min_words'' \<mapsto> VInt 800, ustr ''intro_max_words'' \<mapsto> VInt 1200,
               ustr ''num_chapters'' \<mapsto> VInt 8, ustr ''chapter_length'' \<mapsto> VInt 2000,
               ustr ''final_min_words'' \<mapsto> VInt 800, ustr ''final_max_words'' \<mapsto> VInt 1200,
               ustr ''review_min_words'' \<mapsto> VInt 400, ustr ''review_max_words'' \<mapsto> VInt 700)
      else config)"

section \<open>The stages\<close>

subsection \<open>Stage 1: SEO queries\<close>

text \<open>
  The prompt is an f-string over six keys of the configuration, read in this order; it
  is built before the backend is looked at, so a missing key raises \<open>KeyError\<close> with
  or without a backend.
\<close>

definition stage_1_prompt :: "config \<Rightarrow> error + pystr" where
  "stage_1_prompt config =
     (case getitem config (ustr ''topic'') of Inl e \<Rightarrow> Inl e | Inr topic \<Rightarrow>
      (case getitem config (ustr ''tone'') of Inl e \<Rightarrow> Inl e | Inr tone \<Rightarrow>
      (case getitem config (ustr ''mood'') of Inl e \<Rightarrow> Inl e | Inr mood \<Rightarrow>
      (case getitem config (ustr ''theme'') of Inl e \<Rightarrow> Inl e | Inr theme \<Rightarrow>
      (case getitem config (ustr ''main_keyword'') of Inl e \<Rightarrow> Inl e | Inr main_keyword \<Rightarrow>
      (case getitem config (ustr ''target_audience'') of Inl e \<Rightarrow> Inl e | Inr target_audience \<Rightarrow>
      Inr (ustr ''You are an elite SEO strategist and trend analyst specializing in high'' @
            ustr ''-demand, commercially viable topics within the health, wellness, and f'' @
            ustr ''itness niche. Your primary function is to generate short, realistic, a'' @
            ustr ''nd high-volume search queries that reflect exactly what users are acti'' @
            ustr ''vely searching for on platforms like Google, YouTube, and Reddit in 20'' @
            ustr ''25.\<newline>'' @ ustr ''\<newline>'' @ [127919] @
            ustr '' Rules for Query Generation:\<newline>'' @ [8226] @
            ustr '' Output exactly one natural-language query per line.\<newline>'' @ [8226] @
            ustr '' Queries must be concise, containing 1 to 4 keywords only.\<newline>'' @
            [8226] @ ustr '' Avoid niche, long-tail, or overly specific terms.\<newline>'' @
            [8226] @
            ustr '' Do not include special characters, dates, or brand names.\<newline>'' @
            [8226] @
            ustr '' Ensure each query will reliably yield a minimum of 12 million Google '' @
            ustr ''search results (total_results > 12M).\<newline>'' @ [8226] @
            ustr '' Prioritize topics with broad appeal and clear informational or commer'' @
            ustr ''cial intent ideal for eBooks, courses, or video content creation.\<newline>'' @
            [8226] @
            ustr '' Output queries exactly as users would type them into search bars (no '' @
            ustr ''explanations or additional formatting).\<newline>'' @ ustr ''\<newline>'' @
            ustr ''Respond only with finalized search queries, clearly separated by new l'' @
            ustr ''ines.\<newline>'' @ ustr ''\<newline>'' @
            ustr ''Your task is to provide exactly 5 high-demand, natural-language search'' @
            ustr '' queries suitable for scraping and content ideation within the followi'' @
            ustr ''ng scope. Each query must be phrased exactly as users would naturally '' @
            ustr ''type it and must adhere to all rules defined above.\<newline>'' @
            ustr ''\<newline>'' @ ustr ''Input Parameters:\<newline>'' @ [9679] @ ustr '' Topic: '' @ py_str topic @
            ustr ''\<newline>'' @ [9679] @ ustr '' Tone: '' @ py_str tone @
            ustr ''\<newline>'' @ [9679] @ ustr '' Mood: '' @ py_str mood @
            ustr ''\<newline>'' @ [9679] @ ustr '' Theme: '' @ py_str theme @
            ustr ''\<newline>'' @ [9679] @ ustr '' Main Keyword: '' @ py_str main_keyword @
            ustr ''\<newline>'' @ [9679] @ ustr '' Target Audience: '' @ py_str target_audience @
            ustr ''\<newline>'' @ ustr ''\<newline>'' @
            ustr ''List only the 5 queries clearly, each separated by a new line, without'' @
            ustr '' explanations or extra text.'')))))))"

definition stage_1_seo_queries :: "config \<Rightarrow> llm_client option \<Rightarrow> error + pyval list" where
  "stage_1_seo_queries config client =
     (case stage_1_prompt config of
        Inl e \<Rightarrow> Inl e
      | Inr prompt \<Rightarrow>
          (case client of
             Some c \<Rightarrow>
               (case stream_generate c prompt of
                  Inl e \<Rightarrow> Inl e
                | Inr response \<Rightarrow>
                    Inr (map VStr (take 5 (filter (\<lambda>q. q \<noteq> [])
                      (map strip (split [10] (strip response)))))))
           | None \<Rightarrow>
               (case getitem config (ustr ''main_keyword'') of
                  Inl e \<Rightarrow> Inl e
                | Inr main_keyword \<Rightarrow>
                    Inr [main_keyword,
                         VStr (py_str main_keyword @ ustr '' guide''),
                         VStr (py_str main_keyword @ ustr '' tips''),
                         VStr (ustr ''how to '' @ py_str main_keyword),
                         VStr (py_str main_keyword @ ustr '' for beginners'')])))"

subsection \<open>Stage 2: outline\<close>

text \<open>\<open>.title()\<close> exists on strings only, so any other topic raises \<open>AttributeError\<close>.\<close>

definition stage_2_outline :: "config \<Rightarrow> pyval list \<Rightarrow> llm_client option \<Rightarrow> error + pystr" where
  "stage_2_outline config queries client =
     (case client of
        Some c \<Rightarrow>
          (case getitem config (ustr ''topic'') of
             Inl e \<Rightarrow> Inl e
           | Inr topic \<Rightarrow> stream_generate c (ustr ''Generate eBook outline for: '' @ py_str topic))
      | None \<Rightarrow>
          (case getitem config (ustr ''topic'') of
             Inl e \<Rightarrow> Inl e
           | Inr (VStr topic) \<Rightarrow>
               Inr (ustr ''# '' @ title topic @
                 ustr ''\<newline>\<newline>## Outline\<newline>\<newline>- Chapter 1\<newline>- Chapter 2\<newline>- Chapter 3\<newline>- Chapter 4\<newline>- Chapter 5'')
           | Inr other \<Rightarrow> Inl AttributeError))"

subsection \<open>Stage 3: table of contents\<close>

definition toc_placeholder :: pystr where
  "toc_placeholder = ustr ''# Table of Contents\<newline>\<newline>(Outline parsing found no chapters)\<newline>''"

definition toc_line :: "nat \<times> pystr \<Rightarrow> pystr" where
  "toc_line = (\<lambda>(i, title). str_nat i @ ustr ''. '' @ title)"

definition stage_3_toc :: "pystr \<Rightarrow> llm_client option \<Rightarrow> pystr" where
  "stage_3_toc outline client =
     (let titles = extract_chapter_titles outline in
      if titles = [] then toc_placeholder
      else join [10] ([ustr ''# Table of Contents'', []] @ map toc_line (List.enumerate 1 titles))
             @ [10])"

subsection \<open>Stage 4: chapters\<close>

text \<open>
  The files written so far, by directory and file name. A directory is named by the
  text of its path. A file is written as text and read back as text. What is on disk
  after a stage has raised is not modelled: a failed run returns the exception alone.
\<close>

type_synonym files = "pystr \<times> pystr \<rightharpoonup> pystr"

definition get_default :: "config \<Rightarrow> pystr \<Rightarrow> pyval \<Rightarrow> pyval" where
  "get_default d key dflt = (case d key of None \<Rightarrow> dflt | Some v \<Rightarrow> v)"

text \<open>One round of the loop over the titles.\<close>

definition chapter_text :: "config \<Rightarrow> llm_client option \<Rightarrow> nat \<Rightarrow> pystr \<Rightarrow> error + pystr" where
  "chapter_text config client i chapter_title =
     (let chapter_heading = ustr ''# Chapter '' @ str_nat i @ ustr '': '' @ chapter_title in
      case client of
        Some c \<Rightarrow>
          (case getitem config (ustr ''topic'') of
             Inl e \<Rightarrow> Inl e
           | Inr topic \<Rightarrow>
               (case stream_generate c
                  (ustr ''Write Chapter '' @ str_nat i @ ustr '' titled '' @ [39] @ chapter_title
                   @ [39] @ ustr '' for the eBook on '' @ [39] @ py_str topic @ [39] @ ustr ''. ''
                   @ ustr ''Target length ~''
                   @ py_str (get_default config (ustr ''chapter_length'') (VInt 2000))
                   @ ustr '' words. '' @ ustr ''Use clear subheadings and actionable takeaways.'') of
                  Inl e \<Rightarrow> Inl e
                | Inr text \<Rightarrow>
                    Inr (if text \<noteq> [] then chapter_heading @ ustr ''\<newline>\<newline>'' @ strip text
                         else chapter_heading @ ustr ''\<newline>\<newline>(Empty)'')))
      | None \<Rightarrow>
          Inr (chapter_heading @ ustr ''\<newline>\<newline>Content for '' @ chapter_title @ ustr ''...''))"

fun write_chapters ::
    "config \<Rightarrow> llm_client option \<Rightarrow> (nat \<times> pystr) list \<Rightarrow> error + pystr list" where
  "write_chapters config client [] = Inr []"
| "write_chapters config client ((i, chapter_title) # rest) =
     (case chapter_text config client i chapter_title of
        Inl e \<Rightarrow> Inl e
      | Inr chapter \<Rightarrow>
          (case write_chapters config client rest of
             Inl e \<Rightarrow> Inl e
           | Inr chapters \<Rightarrow> Inr (chapter # chapters)))"

text \<open>
  \<open>range(n)\<close> wants an integer (a truth value counts as one); the synthetic titles are
  Chapter 1 up to Chapter n.
\<close>

definition fallback_titles :: "config \<Rightarrow> error + pystr list" where
  "fallback_titles config =
     (case get_default config (ustr ''num_chapters'') (VInt 5) of
        VInt n \<Rightarrow> Inr (map (\<lambda>i. ustr ''Chapter '' @ str_nat (i + 1)) [0..<nat n])
      | VBool b \<Rightarrow> Inr (map (\<lambda>i. ustr ''Chapter '' @ str_nat (i + 1)) [0..<(if b then 1 else 0)])
      | other \<Rightarrow> Inl TypeError)"

definition stage_4_chapters ::
    "config \<Rightarrow> pyval list \<Rightarrow> llm_client option \<Rightarrow> files \<Rightarrow> error + pystr list" where
  "stage_4_chapters config queries client fs =
     (case get_default config (ustr ''output_dir'') (VStr (ustr ''./output'')) of
        VStr dir \<Rightarrow>
          (let outline_text =
                 (case fs (dir, ustr ''stage_2_outline.md'') of
                    Some written \<Rightarrow> universal_newlines written
                  | None \<Rightarrow> []);
               titles = (if outline_text \<noteq> [] then extract_chapter_titles outline_text else [])
           in
           case (if titles = [] then fallback_titles config else Inr titles) of
             Inl e \<Rightarrow> Inl e
           | Inr titles' \<Rightarrow> write_chapters config client (List.enumerate 1 titles'))
      | other \<Rightarrow> Inl TypeError)"

subsection \<open>Stages 5 to 9\<close>

definition stage_5_optimize :: "pystr list \<Rightarrow> llm_client option \<Rightarrow> pystr list" where
  "stage_5_optimize chapters client = chapters"

definition stage_6_cover :: "config \<Rightarrow> pystr \<Rightarrow> llm_client option \<Rightarrow> error + pystr" where
  "stage_6_cover config first_chapter client =
     (case getitem config (ustr ''topic'') of
        Inl e \<Rightarrow> Inl e
      | Inr topic \<Rightarrow>
          Inr (ustr ''Ultra-realistic, cinematic eBook cover for '' @ [39] @ py_str topic @ [39]
               @ ustr '', emotional and transformative visual metaphor, high-resolution, A4 format.''))"

record element =
  el_chapter :: nat
  el_title :: pystr
  el_type :: pystr
  el_description :: pystr

definition stage_7_interactive :: "pystr list \<Rightarrow> llm_client option \<Rightarrow> element list" where
  "stage_7_interactive chapters client =
     map (\<lambda>i. \<lparr>el_chapter = i + 1,
                el_title = ustr ''Progress Tracker - Chapter '' @ str_nat (i + 1),
                el_type = ustr ''Printable Tracker'',
                el_description = ustr ''Track your progress''\<rparr>)
       [0..<length chapters]"

record chapter_prompt =
  cp_chapter :: nat
  cp_prompt :: pystr

definition stage_8_diagrams :: "pystr list \<Rightarrow> llm_client option \<Rightarrow> chapter_prompt list" where
  "stage_8_diagrams chapters client =
     map (\<lambda>i. \<lparr>cp_chapter = i + 1,
                cp_prompt = ustr ''3D isometric diagram showing key concepts, calming pastel tones, high-resolution''\<rparr>)
       [0..<length chapters]"

definition stage_9_backgrounds :: "pystr list \<Rightarrow> llm_client option \<Rightarrow> chapter_prompt list" where
  "stage_9_backgrounds chapters client =
     map (\<lambda>i. \<lparr>cp_chapter = i + 1,
                cp_prompt = ustr ''Fitness transformation themed background, dynamic gradients, ultra-realistic''\<rparr>)
       [0..<length chapters]"

section \<open>The mock backend\<close>

definition mock_queries_text :: pystr where
  "mock_queries_text =
     ustr ''weight loss\<newline>'' @ ustr ''weight loss tips\<newline>'' @
     ustr ''how to lose weight\<newline>'' @ ustr ''weight loss diet\<newline>'' @
     ustr ''weight loss for beginners''"

definition mock_outline_text :: pystr where
  "mock_outline_text =
     ustr ''# Transform Your Body: The Science of Sustainable Weight Loss\<newline>'' @
     ustr ''\<newline>'' @ ustr ''## Core Transformation Summary\<newline>'' @
     ustr ''This book guides busy professionals through evidence-based weight loss'' @
     ustr '' strategies that fit into hectic schedules. You'' @ [39] @
     ustr ''ll discover sustainable approaches that prioritize health over quick f'' @
     ustr ''ixes, combining nutrition science with behavioral psychology.\<newline>'' @
     ustr ''\<newline>'' @ ustr ''## Chapters & Goals\<newline>'' @ ustr ''\<newline>'' @
     ustr ''Chapter 1: Understanding Your Metabolism\<newline>'' @
     ustr ''Goal: Learn how your body processes food and burns calories.\<newline>'' @
     ustr ''\<newline>'' @ ustr ''Chapter 2: Nutrition Fundamentals\<newline>'' @
     ustr ''Goal: Master the basics of macronutrients and meal planning.\<newline>'' @
     ustr ''\<newline>'' @ ustr ''Chapter 3: Exercise Essentials\<newline>'' @
     ustr ''Goal: Design a workout routine that fits your lifestyle.\<newline>'' @
     ustr ''\<newline>'' @ ustr ''Chapter 4: Building Lasting Habits\<newline>'' @
     ustr ''Goal: Create sustainable behaviors for long-term success.\<newline>'' @
     ustr ''\<newline>'' @ ustr ''Chapter 5: Overcoming Plateaus\<newline>'' @
     ustr ''Goal: Navigate challenges and maintain momentum.\<newline>'' @
     ustr ''\<newline>'' @ ustr ''Final Thoughts\<newline>'' @
     ustr ''Goal: Embrace your transformation journey with confidence and knowledg'' @
     ustr ''e.''"

definition mock_toc_text :: pystr where
  "mock_toc_text =
     ustr ''# Table of Contents\<newline>'' @ ustr ''\<newline>'' @
     ustr ''Chapter 1: Metabolic Mastery\<newline>'' @
     ustr ''Unlock the science of how your body burns energy\<newline>'' @
     ustr ''\<newline>'' @ ustr ''Chapter 2: Nutrition Blueprint\<newline>'' @
     ustr ''Build a sustainable eating plan for life\<newline>'' @ ustr ''\<newline>'' @
     ustr ''Chapter 3: Movement Matters\<newline>'' @ ustr ''Find exercises you'' @ [39] @
     ustr ''ll actually enjoy\<newline>'' @ ustr ''\<newline>'' @
     ustr ''Chapter 4: Habit Formation\<newline>'' @
     ustr ''Turn intentions into automatic behaviors\<newline>'' @ ustr ''\<newline>'' @
     ustr ''Chapter 5: Plateau Breakthrough\<newline>'' @
     ustr ''Push through barriers and stay consistent\<newline>'' @ ustr ''\<newline>'' @
     ustr ''Final Thoughts\<newline>'' @ ustr ''Your journey starts now''"

text \<open>
  \<open>MockClient.generate\<close>. The bare \<open>except\<close> around the reading of the topic keeps the
  topic \<open>wellness\<close> when anything in it raises.
\<close>

definition mock_generate :: "pystr \<Rightarrow> error + pystr" where
  "mock_generate prompt =
     (if contains (ustr ''configuration'') (lower prompt)
         \<or> contains (ustr ''strategist'') (lower prompt)
         \<or> contains (ustr ''Given Topic:'') prompt then
        (let topic =
               (if contains (ustr ''Given Topic:'') prompt then
                  (case split (ustr ''Given Topic:'') prompt of
                     a # b # rest \<Rightarrow>
                       (case split [10] b of x # xs \<Rightarrow> strip x | [] \<Rightarrow> ustr ''wellness'')
                   | other \<Rightarrow> ustr ''wellness'')
                else ustr ''wellness'')
         in
         case (if topic \<noteq> [] then
                 (case split_ws topic of [] \<Rightarrow> Inl IndexError | w # ws \<Rightarrow> Inr w)
               else Inr (ustr ''wellness'')) of
           Inl e \<Rightarrow> Inl e
         | Inr main_keyword \<Rightarrow>
             Inr (([96, 96, 96] @ ustr ''yaml\<newline>'' @ ustr ''topic: '' @ [34]) @ topic @
                  ([34] @ ustr ''\<newline>'' @ ustr ''main_keyword: '' @ [34]) @ main_keyword @
                  ([34] @ ustr ''\<newline>'' @ ustr ''theme: '' @ [34] @
                  ustr ''science-backed transformation'' @ [34] @ ustr ''\<newline>'' @
                  ustr ''target_audience: '' @ [34] @ ustr ''busy professionals aged 30-50'' @ [34] @
                  ustr ''\<newline>'' @ ustr ''tone: '' @ [34] @ ustr ''empowering'' @ [34] @
                  ustr ''\<newline>'' @ ustr ''mood: '' @ [34] @ ustr ''motivational'' @ [34] @
                  ustr ''\<newline>'' @ ustr ''distribution_platform: '' @ [34] @ ustr ''Amazon KDP'' @
                  [34] @ ustr ''\<newline>'' @ ustr ''primary_format: '' @ [34] @ ustr ''Kindle'' @
                  [34] @ ustr ''\<newline>'' @ ustr ''chapter_length: 2000\<newline>'' @
                  ustr ''interactive_elements_included: '' @ [34] @
                  ustr ''Printable Tracker, Progress Checklist, Habit Worksheet'' @ [34] @
                  ustr ''\<newline>'' @ [96, 96, 96])))
      else if contains (ustr ''SEO'') prompt \<or> contains (ustr ''queries'') (lower prompt) then
        Inr mock_queries_text
      else if contains (ustr ''outline'') (lower prompt) \<or> contains (ustr ''eBook'') prompt then
        Inr mock_outline_text
      else if contains (ustr ''Table of Contents'') prompt then
        Inr mock_toc_text
      else Inr (ustr ''Mock response for: '' @ take 100 prompt @ ustr ''...''))"

text \<open>
  \<open>MockClient\<close> inherits \<open>stream_generate\<close>, which calls \<open>generate\<close> and hands the whole
  text to \<open>on_delta\<close>; \<open>create_llm_client(provider='mock')\<close> returns a \<open>MockClient\<close>.
\<close>

definition MockClient :: llm_client where
  "MockClient = \<lparr>generate = mock_generate, stream_generate = mock_generate\<rparr>"

section \<open>The Compiler\<close>

definition write_section_with_stream ::
    "pystr \<Rightarrow> pystr \<Rightarrow> llm_client option \<Rightarrow> error + pystr" where
  "write_section_with_stream section_title body_prompt client =
     (case client of
        None \<Rightarrow> Inr (ustr ''# '' @ section_title @ ustr ''\<newline>\<newline>'' @ body_prompt @ [10])
      | Some c \<Rightarrow>
          (case stream_generate c body_prompt of
             Inl e \<Rightarrow> Inl e
           | Inr text \<Rightarrow> Inr (ustr ''# '' @ section_title @ ustr ''\<newline>\<newline>'' @ strip text @ [10])))"

text \<open>
  The outputs of the stages, as \<open>compile_ebook\<close> reads them. \<open>r_config\<close> is the
  configuration object itself, so it shows the \<open>output_dir\<close> key set after stage 2.
\<close>

record results =
  r_config :: config
  r_queries :: "pyval list option"
  r_outline :: "pystr option"
  r_toc :: "pystr option"
  r_chapters :: "pystr list option"
  r_optimized_chapters :: "pystr list option"
  r_cover_prompt :: "pystr option"
  r_interactive_elements :: "element list option"
  r_diagram_prompts :: "chapter_prompt list option"
  r_background_prompts :: "chapter_prompt list option"
  r_output_dir :: pystr

text \<open>\<open>llm_client or create_llm_client(provider='mock')\<close>.\<close>

definition or_mock :: "llm_client option \<Rightarrow> llm_client option" where
  "or_mock client = (case client of Some c \<Rightarrow> Some c | None \<Rightarrow> Some MockClient)"

definition title_page :: "results \<Rightarrow> error + pystr" where
  "title_page results =
     (case getitem (r_config results) (ustr ''topic'') of
        Inl e \<Rightarrow> Inl e
      | Inr (VStr topic) \<Rightarrow>
          (case getitem (r_config results) (ustr ''target_audience'') of
             Inl e \<Rightarrow> Inl e
           | Inr target_audience \<Rightarrow>
               Inr (ustr ''# '' @ title topic @ ustr ''\<newline>\<newline>''
                    @ ustr ''*An eBook for '' @ py_str target_audience @ ustr ''*\<newline>\<newline>''
                    @ ustr ''---\<newline>\<newline>''))
      | Inr other \<Rightarrow> Inl AttributeError)"

text \<open>
  The three optional sections. \<open>.get\<close> gives \<open>None\<close> for a missing bound, and the test
  \<open>if intro_min and intro_max\<close> goes by truth value.
\<close>

definition intro_block :: "results \<Rightarrow> llm_client option \<Rightarrow> error + pystr" where
  "intro_block results client =
     (let intro_min = get_default (r_config results) (ustr ''intro_min_words'') VNone;
          intro_max = get_default (r_config results) (ustr ''intro_max_words'') VNone
      in
      if truthy intro_min \<and> truthy intro_max then
        (case getitem (r_config results) (ustr ''topic'') of
           Inl e \<Rightarrow> Inl e
         | Inr topic \<Rightarrow>
             (case write_section_with_stream (ustr ''Introduction'')
                (ustr ''Write an introductory section for the eBook on '' @ [39] @ py_str topic
                 @ [39] @ ustr ''. Target length '' @ py_str intro_min @ ustr ''-''
                 @ py_str intro_max @ ustr '' words.'')
                (or_mock client) of
                Inl e \<Rightarrow> Inl e
              | Inr intro \<Rightarrow> Inr (intro @ ustr ''\<newline>---\<newline>\<newline>'')))
      else Inr [])"

definition final_block :: "results \<Rightarrow> llm_client option \<Rightarrow> error + pystr" where
  "final_block results client =
     (let final_min = get_default (r_config results) (ustr ''final_min_words'') VNone;
          final_max = get_default (r_config results) (ustr ''final_max_words'') VNone
      in
      if truthy final_min \<and> truthy final_max then
        (case getitem (r_config results) (ustr ''topic'') of
           Inl e \<Rightarrow> Inl e
         | Inr topic \<Rightarrow>
             (case write_section_with_stream (ustr ''Final Thoughts'')
                (ustr ''Write final thoughts for the eBook on '' @ [39] @ py_str topic
                 @ [39] @ ustr ''. Target length '' @ py_str final_min @ ustr ''-''
                 @ py_str final_max @ ustr '' words.'')
                (or_mock client) of
                Inl e \<Rightarrow> Inl e
              | Inr final \<Rightarrow> Inr (final @ ustr ''\<newline>---\<newline>\<newline>'')))
      else Inr [])"

definition review_block :: "results \<Rightarrow> llm_client option \<Rightarrow> error + pystr" where
  "review_block results client =
     (let review_min = get_default (r_config results) (ustr ''review_min_words'') VNone;
          review_max = get_default (r_config results) (ustr ''review_max_words'') VNone
      in
      if truthy review_min \<and> truthy review_max then
        (case write_section_with_stream (ustr ''We'' @ [39] @ ustr ''d Love Your Review'')
           (ustr ''Write a short call-to-action asking readers to leave a review for the eBook. Target length ''
            @ py_str review_min @ ustr ''-'' @ py_str review_max @ ustr '' words.'')
           (or_mock client) of
           Inl e \<Rightarrow> Inl e
         | Inr review \<Rightarrow> Inr (review @ ustr ''\<newline>---\<newline>\<newline>''))
      else Inr [])"

definition toc_block :: "results \<Rightarrow> pystr" where
  "toc_block results =
     (case r_toc results of
        Some toc \<Rightarrow> toc @ ustr ''\<newline>\<newline>---\<newline>\<newline>''
      | None \<Rightarrow> [])"

text \<open>Every chapter is followed by a blank line, and every chapter but the last by a rule.\<close>

definition chapter_block :: "nat \<Rightarrow> nat \<times> pystr \<Rightarrow> pystr" where
  "chapter_block n = (\<lambda>(i, chapter).
     chapter @ ustr ''\<newline>\<newline>'' @ (if i < n then ustr ''---\<newline>\<newline>'' else []))"

definition chapters_block :: "results \<Rightarrow> pystr" where
  "chapters_block results =
     (case r_optimized_chapters results of
        Some chapters \<Rightarrow> concat (map (chapter_block (length chapters)) (List.enumerate 1 chapters))
      | None \<Rightarrow> [])"

definition element_block :: "element \<Rightarrow> pystr" where
  "element_block elem =
     ustr ''## '' @ el_title elem @ [10] @ ustr ''Type: '' @ el_type elem @ [10]
     @ el_description elem @ ustr ''\<newline>\<newline>''"

definition appendix_block :: "results \<Rightarrow> pystr" where
  "appendix_block results =
     ustr ''\<newline>\<newline>---\<newline>\<newline># Appendix: Interactive Tools\<newline>\<newline>''
     @ (case r_interactive_elements results of
          Some elements \<Rightarrow> concat (map element_block elements)
        | None \<Rightarrow> [])"

text \<open>The text written to \<open>FINAL_EBOOK.md\<close>, in the order of the writes.\<close>

definition ebook_document :: "results \<Rightarrow> llm_client option \<Rightarrow> error + pystr" where
  "ebook_document results client =
     (case title_page results of
        Inl e \<Rightarrow> Inl e
      | Inr front \<Rightarrow>
     (case intro_block results client of
        Inl e \<Rightarrow> Inl e
      | Inr intro \<Rightarrow>
     (case final_block results client of
        Inl e \<Rightarrow> Inl e
      | Inr final \<Rightarrow>
     (case review_block results client of
        Inl e \<Rightarrow> Inl e
      | Inr review \<Rightarrow>
          Inr (front @ intro @ toc_block results @ chapters_block results @ final @ review
               @ appendix_block results)))))"

definition compile_ebook ::
    "results \<Rightarrow> pystr \<Rightarrow> llm_client option \<Rightarrow> files \<Rightarrow> error + ((pystr \<times> pystr) \<times> files)" where
  "compile_ebook results output_dir client fs =
     (let ebook_path = (output_dir, ustr ''FINAL_EBOOK.md'') in
      case ebook_document results client of
        Inl e \<Rightarrow> Inl e
      | Inr document \<Rightarrow> Inr (ebook_path, fs(ebook_path \<mapsto> document)))"

section \<open>The pipeline\<close>

text \<open>
  The JSON texts come from the \<open>json\<close> library and the time stamp from the clock; they
  are parameters of the model. Dumping the metadata can raise, since the configuration
  may hold a value that JSON cannot write.
\<close>

record host =
  json_elements :: "element list \<Rightarrow> pystr"
  json_prompts :: "chapter_prompt list \<Rightarrow> pystr"
  json_metadata :: "config \<Rightarrow> pystr \<times> pystr \<Rightarrow> error + pystr"

definition save_stage_output :: "files \<Rightarrow> pystr \<Rightarrow> pystr \<Rightarrow> pystr \<Rightarrow> files" where
  "save_stage_output fs output_dir filename content = fs((output_dir, filename) \<mapsto> content)"

text \<open>\<open>'\n'.join(queries)\<close> raises \<open>TypeError\<close> on an item that is not a string.\<close>

fun strings_of :: "pyval list \<Rightarrow> error + pystr list" where
  "strings_of [] = Inr []"
| "strings_of (VStr s # vs) =
     (case strings_of vs of Inl e \<Rightarrow> Inl e | Inr ss \<Rightarrow> Inr (s # ss))"
| "strings_of (v # vs) = Inl TypeError"

definition join_values :: "pystr \<Rightarrow> pyval list \<Rightarrow> error + pystr" where
  "join_values sep items =
     (case strings_of items of Inl e \<Rightarrow> Inl e | Inr ss \<Rightarrow> Inr (join sep ss))"

text \<open>The loops that save one file per chapter.\<close>

definition save_numbered :: "files \<Rightarrow> pystr \<Rightarrow> pystr \<Rightarrow> pystr list \<Rightarrow> files" where
  "save_numbered fs output_dir stem chapters =
     foldl (\<lambda>fs' (i, chapter).
              save_stage_output fs' output_dir (stem @ str_nat i @ ustr ''.md'') chapter)
       fs (List.enumerate 1 chapters)"

definition execute_pipeline ::
    "host \<Rightarrow> config \<Rightarrow> pystr \<Rightarrow> llm_client option \<Rightarrow> files \<Rightarrow> error + (results \<times> files)" where
  "execute_pipeline h config output_dir client fs =
     (case stage_1_seo_queries config client of
        Inl e \<Rightarrow> Inl e
      | Inr queries \<Rightarrow>
     (case join_values [10] queries of
        Inl e \<Rightarrow> Inl e
      | Inr queries_text \<Rightarrow>
     (case stage_2_outline config queries client of
        Inl e \<Rightarrow> Inl e
      | Inr outline \<Rightarrow>
     (let fs1 = save_stage_output fs output_dir (ustr ''stage_1_queries.txt'') queries_text;
          fs2 = save_stage_output fs1 output_dir (ustr ''stage_2_outline.md'') outline;
          config2 = config(ustr ''output_dir'' \<mapsto> VStr output_dir);
          toc = stage_3_toc outline client;
          fs3 = save_stage_output fs2 output_dir (ustr ''stage_3_toc.md'') toc
      in
      case stage_4_chapters config2 queries client fs3 of
        Inl e \<Rightarrow> Inl e
      | Inr chapters \<Rightarrow>
     (let fs4 = save_numbered fs3 output_dir (ustr ''stage_4_chapter_'') chapters;
          optimized_chapters = stage_5_optimize chapters client;
          fs5 = save_numbered fs4 output_dir (ustr ''stage_5_optimized_chapter_'')
                  optimized_chapters
      in
      case optimized_chapters of
        [] \<Rightarrow> Inl IndexError
      | first_chapter # others \<Rightarrow>
     (case stage_6_cover config2 first_chapter client of
        Inl e \<Rightarrow> Inl e
      | Inr cover_prompt \<Rightarrow>
     (let fs6 = save_stage_output fs5 output_dir (ustr ''stage_6_cover_prompt.txt'') cover_prompt;
          interactive_elements = stage_7_interactive optimized_chapters client;
          fs7 = save_stage_output fs6 output_dir (ustr ''stage_7_interactive_elements.json'')
                  (json_elements h interactive_elements);
          diagram_prompts = stage_8_diagrams optimized_chapters client;
          fs8 = save_stage_output fs7 output_dir (ustr ''stage_8_diagram_prompts.json'')
                  (json_prompts h diagram_prompts);
          background_prompts = stage_9_backgrounds optimized_chapters client;
          fs9 = save_stage_output fs8 output_dir (ustr ''stage_9_background_prompts.json'')
                  (json_prompts h background_prompts);
          results = \<lparr>r_config = config2, r_queries = Some queries, r_outline = Some outline,
            r_toc = Some toc, r_chapters = Some chapters,
            r_optimized_chapters = Some optimized_chapters, r_cover_prompt = Some cover_prompt,
            r_interactive_elements = Some interactive_elements,
            r_diagram_prompts = Some diagram_prompts,
            r_background_prompts = Some background_prompts, r_output_dir = output_dir\<rparr>
      in
      case compile_ebook results output_dir None fs9 of
        Inl e \<Rightarrow> Inl e
      | Inr (ebook_path, fs10) \<Rightarrow>
     (case json_metadata h config2 ebook_path of
        Inl e \<Rightarrow> Inl e
      | Inr metadata \<Rightarrow>
          Inr (results,
               save_stage_output fs10 output_dir (ustr ''generation_metadata.json'')
                 metadata)))))))))"

section \<open>Example inputs\<close>

text \<open>
  Inputs for the concrete runs below: a backend whose calls fail, a backend whose calls
  return fixed texts, a YAML loader that rejects every text and one that reads every
  text as a mapping with its own values for the two system keys.
\<close>

definition failing_client :: llm_client where
  "failing_client = \<lparr>generate = (\<lambda>prompt. Inl (BackendError (ustr ''connection refused''))),
     stream_generate = (\<lambda>prompt. Inl (BackendError (ustr ''connection refused'')))\<rparr>"

definition fixed_client :: "pystr \<Rightarrow> llm_client" where
  "fixed_client reply = \<lparr>generate = (\<lambda>prompt. Inr reply),
     stream_generate = (\<lambda>prompt. Inr reply)\<rparr>"

definition rejecting_yaml :: "pystr \<Rightarrow> error + loaded" where
  "rejecting_yaml block = Inl ValueError"

definition suggesting_yaml :: "pystr \<Rightarrow> error + loaded" where
  "suggesting_yaml block = Inr (LDict [ustr ''topic'' \<mapsto> VStr (ustr ''yoga''),
     ustr ''min_search_results'' \<mapsto> VInt 1, ustr ''num_chapters'' \<mapsto> VInt 99])"

definition required_keys :: "pystr list" where
  "required_keys = [ustr ''topic'', ustr ''main_keyword'', ustr ''theme'',
     ustr ''target_audience'', ustr ''tone'', ustr ''mood'', ustr ''distribution_platform'',
     ustr ''primary_format'', ustr ''chapter_length'', ustr ''interactive_elements_included'',
     ustr ''min_search_results'', ustr ''num_chapters'']"

text \<open>The bounds of one optional section are both there, as integers, and in order.\<close>

definition bounds_ordered :: "config \<Rightarrow> pystr \<Rightarrow> pystr \<Rightarrow> bool" where
  "bounds_ordered config lo hi =
     (case (config lo, config hi) of
        (Some (VInt a), Some (VInt b)) \<Rightarrow> a \<le> b
      | _ \<Rightarrow> False)"

text \<open>
  The keys that the prompt of stage 1 reads, and the entries of a reply: its lines,
  trimmed, without the blank ones.
\<close>

definition prompt_keys :: "pystr list" where
  "prompt_keys = [ustr ''topic'', ustr ''tone'', ustr ''mood'', ustr ''theme'',
     ustr ''main_keyword'', ustr ''target_audience'']"

definition reply_entries :: "pystr \<Rightarrow> pystr list" where
  "reply_entries response = filter (\<lambda>q. q \<noteq> []) (map strip (split [10] (strip response)))"

definition small_config :: config where
  "small_config = [ustr ''topic'' \<mapsto> VStr (ustr ''yoga at home''),
     ustr ''tone'' \<mapsto> VStr (ustr ''calm''), ustr ''mood'' \<mapsto> VStr (ustr ''uplifting''),
     ustr ''theme'' \<mapsto> VStr (ustr ''daily practice''),
     ustr ''main_keyword'' \<mapsto> VStr (ustr ''yoga''),
     ustr ''target_audience'' \<mapsto> VStr (ustr ''beginners'')]"

text \<open>
  A host whose JSON texts are fixed, an empty file store, and a configuration with an
  introduction bound of zero, no bounds for the final thoughts, and bounds for the
  review request.
\<close>

definition plain_host :: host where
  "plain_host = \<lparr>json_elements = (\<lambda>elements. ustr ''[]''),
     json_prompts = (\<lambda>prompts. ustr ''[]''),
     json_metadata = (\<lambda>config path. Inr (ustr ''{}''))\<rparr>"

definition no_files :: files where
  "no_files = Map.empty"


text \<open>
  The end-to-end fallback scenario: the topic is \<open>weight loss for beginners\<close>, there is
  no backend, and the template is \<open>standard\<close>. \<open>scenario_defaults\<close> is the configuration
  of heuristic defaults for this topic, and \<open>scenario_config\<close> what the Configuration
  Builder and the Template Applier make of it.
\<close>

definition scenario_topic :: pystr where
  "scenario_topic = ustr ''weight loss for beginners''"

definition scenario_defaults :: config where
  "scenario_defaults =
     [ustr ''topic'' \<mapsto> VStr (ustr ''weight loss for beginners''),
      ustr ''main_keyword'' \<mapsto> VStr (ustr ''weight''),
      ustr ''theme'' \<mapsto> VStr (ustr ''beginner-friendly transformation''),
      ustr ''target_audience'' \<mapsto>
        VStr (ustr ''busy professionals aged 30-50 seeking practical solutions''),
      ustr ''tone'' \<mapsto> VStr (ustr ''empowering''),
      ustr ''mood'' \<mapsto> VStr (ustr ''motivational''),
      ustr ''distribution_platform'' \<mapsto> VStr (ustr ''Amazon KDP''),
      ustr ''primary_format'' \<mapsto> VStr (ustr ''Kindle''),
      ustr ''chapter_length'' \<mapsto> VInt 2000,
      ustr ''interactive_elements_included'' \<mapsto>
        VStr (ustr ''Printable Tracker, Progress Checklist, Habit Worksheet'')]"

definition scenario_config :: config where
  "scenario_config =
     apply_template_defaults (add_system_defaults scenario_defaults) (ustr ''standard'')"

text \<open>What the scenario produces: the outline, the chapters, the interactive elements and
  the final document.\<close>

definition scenario_outline :: pystr where
  "scenario_outline = ustr ''# Weight Loss For Beginners\<newline>\<newline>## Outline\<newline>\<newline>- Chapter 1\<newline>- Chapter 2\<newline>- Chapter 3\<newline>- Chapter 4\<newline>- Chapter 5''"

definition scenario_chapters :: "pystr list" where
  "scenario_chapters =
    [ustr ''# Chapter 1: Chapter 1\<newline>\<newline>Content for Chapter 1...'',
     ustr ''# Chapter 2: Chapter 2\<newline>\<newline>Content for Chapter 2...'',
     ustr ''# Chapter 3: Chapter 3\<newline>\<newline>Content for Chapter 3...'',
     ustr ''# Chapter 4: Chapter 4\<newline>\<newline>Content for Chapter 4...'',
     ustr ''# Chapter 5: Chapter 5\<newline>\<newline>Content for Chapter 5...'']"

definition scenario_elements :: "element list" where
  "scenario_elements =
    [\<lparr>el_chapter = 1, el_title = ustr ''Progress Tracker - Chapter 1'',
        el_type = ustr ''Printable Tracker'', el_description = ustr ''Track your progress''\<rparr>,
     \<lparr>el_chapter = 2, el_title = ustr ''Progress Tracker - Chapter 2'',
        el_type = ustr ''Printable Tracker'', el_description = ustr ''Track your progress''\<rparr>,
     \<lparr>el_chapter = 3, el_title = ustr ''Progress Tracker - Chapter 3'',
        el_type = ustr ''Printable Tracker'', el_description = ustr ''Track your progress''\<rparr>,
     \<lparr>el_chapter = 4, el_title = ustr ''Progress Tracker - Chapter 4'',
        el_type = ustr ''Printable Tracker'', el_description = ustr ''Track your progress''\<rparr>,
     \<lparr>el_chapter = 5, el_title = ustr ''Progress Tracker - Chapter 5'',
        el_type = ustr ''Printable Tracker'', el_description = ustr ''Track your progress''\<rparr>]"

definition scenario_document :: pystr where
  "scenario_document =
     ustr ''# Weight Loss For Beginners\<newline>\<newline>''
     @ ustr ''*An eBook for busy professionals aged 30-50 seeking practical solutions*\<newline>\<newline>''
     @ ustr ''---\<newline>\<newline>''
     @ ustr ''# Introduction\<newline>\<newline>'' @ mock_outline_text @ ustr ''\<newline>\<newline>---\<newline>\<newline>''
     @ toc_placeholder @ ustr ''\<newline>\<newline>---\<newline>\<newline>''
     @ ustr ''# Chapter 1: Chapter 1\<newline>\<newline>Content for Chapter 1...\<newline>\<newline>---\<newline>\<newline>''
     @ ustr ''# Chapter 2: Chapter 2\<newline>\<newline>Content for Chapter 2...\<newline>\<newline>---\<newline>\<newline>''
     @ ustr ''# Chapter 3: Chapter 3\<newline>\<newline>Content for Chapter 3...\<newline>\<newline>---\<newline>\<newline>''
     @ ustr ''# Chapter 4: Chapter 4\<newline>\<newline>Content for Chapter 4...\<newline>\<newline>---\<newline>\<newline>''
     @ ustr ''# Chapter 5: Chapter 5\<newline>\<newline>Content for Chapter 5...\<newline>\<newline>''
     @ ustr ''# Final Thoughts\<newline>\<newline>'' @ mock_outline_text @ ustr ''\<newline>\<newline>---\<newline>\<newline>''
     @ ustr ''# We'' @ [39] @ ustr ''d Love Your Review\<newline>\<newline>'' @ mock_outline_text
     @ ustr ''\<newline>\<newline>---\<newline>\<newline>''
     @ ustr ''\<newline>\<newline>---\<newline>\<newline># Appendix: Interactive Tools\<newline>\<newline>''
     @ ustr ''## Progress Tracker - Chapter 1\<newline>Type: Printable Tracker\<newline>Track your progress\<newline>\<newline>''
     @ ustr ''## Progress Tracker - Chapter 2\<newline>Type: Printable Tracker\<newline>Track your progress\<newline>\<newline>''
     @ ustr ''## Progress Tracker - Chapter 3\<newline>Type: Printable Tracker\<newline>Track your progress\<newline>\<newline>''
     @ ustr ''## Progress Tracker - Chapter 4\<newline>Type: Printable Tracker\<newline>Track your progress\<newline>\<newline>''
     @ ustr ''## Progress Tracker - Chapter 5\<newline>Type: Printable Tracker\<newline>Track your progress\<newline>\<newline>''"

text \<open>
  The numbered entries of a table of contents: its lines of the form \<open>i. title\<close>, as
  stage 3 writes them.
\<close>

definition is_ascii_digit :: "nat \<Rightarrow> bool" where
  "is_ascii_digit c = (48 \<le> c \<and> c \<le> 57)"

definition is_blank :: "nat \<Rightarrow> bool" where
  "is_blank c = (c = 32)"

definition is_numbered_entry :: "pystr \<Rightarrow> bool" where
  "is_numbered_entry line = (seq (plus is_ascii_digit) (seq (one is_dot) (one is_blank)) line \<noteq> [])"

definition numbered_entries :: "pystr \<Rightarrow> pystr list" where
  "numbered_entries text = filter is_numbered_entry (splitlines text)"
section \<open>Properties of the Heading Extractor\<close>

subsection \<open>Character classes\<close>

lemma is_decimal_ascii: "c < 1632 \<Longrightarrow> is_decimal c = (48 \<le> c \<and> c \<le> 57)"
  by (auto simp: is_decimal_def decimal_bases_def)

lemma decimal_cover:
  "is_decimal c \<Longrightarrow>
     (48 \<le> c \<and> c \<le> 57) \<or> (1632 \<le> c \<and> c \<le> 4249) \<or> (6112 \<le> c \<and> c \<le> 7257) \<or> 42528 \<le> c"
  by (simp add: is_decimal_def decimal_bases_def; arith)

lemma decimal_not_space: "is_decimal c \<Longrightarrow> \<not> is_space c"
  by (drule decimal_cover) (auto simp: is_space_def)

lemma decimal_not_dot: "is_decimal c \<Longrightarrow> c \<noteq> 46"
  by (drule decimal_cover) auto

subsection \<open>The loop as a fold over candidates\<close>

lemma chapter_re_Nil: "chapter_re [] = None"
  by (simp add: chapter_re_def chapter_head_def marker_def seq_def alt_def opt_def plus_def
      captures_def ustr_def)

lemma extract_step_candidate:
  "extract_step titles raw =
     (case candidate raw of None \<Rightarrow> titles | Some t \<Rightarrow> insert_new titles t)"
  by (auto simp: extract_step_def candidate_def insert_new_def Let_def chapter_re_Nil
      replace_char_def split: option.splits)

lemma foldl_extract_step:
  "foldl extract_step acc lines = foldl insert_new acc (List.map_filter candidate lines)"
  by (induction lines arbitrary: acc)
     (auto simp: extract_step_candidate List.map_filter_simps split: option.splits)

lemma first_occurrences_filter:
  "first_occurrences (filter P xs) = filter P (first_occurrences xs)"
proof (induction xs)
  case Nil
  show ?case by simp
next
  case (Cons x xs)
  show ?case
  proof (cases "P x")
    case True
    with Cons show ?thesis by (simp add: conj_commute)
  next
    case False
    have "filter (\<lambda>y. y \<noteq> x \<and> P y) (first_occurrences xs) = filter P (first_occurrences xs)"
      by (rule filter_cong) (use False in auto)
    with False Cons show ?thesis by simp
  qed
qed

lemma foldl_insert_new:
  "foldl insert_new acc ts = acc @ first_occurrences (filter (\<lambda>t. t \<notin> set acc) ts)"
proof (induction ts arbitrary: acc)
  case Nil
  show ?case by simp
next
  case (Cons t ts)
  show ?case
  proof (cases "t \<in> set acc")
    case True
    then show ?thesis using Cons by (simp add: insert_new_def)
  next
    case False
    have "first_occurrences (filter (\<lambda>y. y \<notin> set (acc @ [t])) ts) =
          filter (\<lambda>y. y \<noteq> t) (first_occurrences (filter (\<lambda>y. y \<notin> set acc) ts))"
      by (simp add: first_occurrences_filter [symmetric] conj_commute)
    with False Cons show ?thesis by (simp add: insert_new_def)
  qed
qed

lemma extract_chapter_titles_eq:
  "extract_chapter_titles outline =
     first_occurrences (List.map_filter candidate (splitlines outline))"
  by (simp add: extract_chapter_titles_def foldl_extract_step foldl_insert_new)

lemma set_first_occurrences: "set (first_occurrences xs) = set xs"
  by (induction xs) auto

lemma distinct_first_occurrences: "distinct (first_occurrences xs)"
  by (induction xs) (auto simp: set_first_occurrences)

lemma first_occurrences_map:
  "inj_on f (set xs) \<Longrightarrow> first_occurrences (map f xs) = map f (first_occurrences xs)"
proof (induction xs)
  case Nil
  show ?case by simp
next
  case (Cons x xs)
  have inj: "inj_on f (set xs)" and sub: "set (first_occurrences xs) \<subseteq> set (x # xs)"
    using Cons.prems by (auto simp: set_first_occurrences)
  have "filter (\<lambda>y. y \<noteq> f x) (map f (first_occurrences xs)) =
        map f (filter (\<lambda>y. y \<noteq> x) (first_occurrences xs))"
    unfolding filter_map comp_def
    by (rule arg_cong [where f = "map f"], rule filter_cong)
       (use Cons.prems sub in \<open>auto simp: inj_on_def\<close>)
  with Cons.IH [OF inj] show ?case by simp
qed

lemma candidate_matches: "candidate raw = Some t \<Longrightarrow> matches_chapter raw"
  by (auto simp: candidate_def matches_chapter_def split: option.splits)

lemma map_filter_candidate_matching:
  "List.map_filter candidate (filter matches_chapter lines) = List.map_filter candidate lines"
  by (induction lines)
     (auto simp: List.map_filter_simps dest: candidate_matches split: option.splits)

lemma map_filter_all_Some:
  "\<forall>x\<in>set xs. f x = Some (g x) \<Longrightarrow> List.map_filter f xs = map g xs"
  by (induction xs) (auto simp: List.map_filter_simps)


subsection \<open>Sub-numbered titles\<close>

lemma star_self: "s \<in> set (star P s)"
  by (cases s) auto

lemma star_prefix: "list_all P ds \<Longrightarrow> r \<in> set (star P (ds @ r))"
  by (induction ds) (auto simp: star_self)

lemma star_split: "r \<in> set (star P s) \<Longrightarrow> \<exists>ds. list_all P ds \<and> s = ds @ r"
proof (induction s)
  case Nil
  then show ?case by simp
next
  case (Cons c cs)
  show ?case
  proof (cases "r = c # cs")
    case True
    then show ?thesis by (intro exI [of _ "[]"]) simp
  next
    case False
    with Cons.prems have "P c" and "r \<in> set (star P cs)"
      by (auto split: if_splits)
    with Cons.IH obtain ds where "list_all P ds" "cs = ds @ r" by blast
    with \<open>P c\<close> show ?thesis by (intro exI [of _ "c # ds"]) simp
  qed
qed

lemma set_seq: "set (seq p q s) = (\<Union>r\<in>set (p s). set (q r))"
  by (simp add: seq_def)

lemma one_iff: "r \<in> set (one P s) \<longleftrightarrow> (\<exists>c. s = c # r \<and> P c)"
  by (cases s) auto

lemma plus_iff:
  "r \<in> set (plus P s) \<longleftrightarrow> (\<exists>ds. ds \<noteq> [] \<and> list_all P ds \<and> s = ds @ r)"
proof
  assume "r \<in> set (plus P s)"
  then obtain c cs where s: "s = c # cs" "P c" and "r \<in> set (star P cs)"
    by (auto simp: plus_def set_seq one_iff)
  then obtain ds where "list_all P ds" "cs = ds @ r"
    using star_split by blast
  with s show "\<exists>ds. ds \<noteq> [] \<and> list_all P ds \<and> s = ds @ r"
    by (intro exI [of _ "c # ds"]) simp
next
  assume "\<exists>ds. ds \<noteq> [] \<and> list_all P ds \<and> s = ds @ r"
  then obtain ds where ds: "ds \<noteq> []" "list_all P ds" "s = ds @ r" by blast
  then obtain c ds' where "ds = c # ds'" by (cases ds) auto
  with ds show "r \<in> set (plus P s)"
    by (auto simp: plus_def set_seq one_iff star_prefix)
qed

lemma subnumbered_iff:
  "subnumbered t \<longleftrightarrow>
     (\<exists>ds d rest. t = ds @ 46 # d # rest \<and> ds \<noteq> [] \<and> list_all is_decimal ds \<and> is_decimal d)"
proof
  assume "subnumbered t"
  then obtain r3 where "r3 \<in> set (seq (plus is_decimal) (seq (one is_dot) (plus is_decimal)) t)"
    unfolding subnumbered_def by (meson last_in_set)
  then obtain r1 r2 where r: "r1 \<in> set (plus is_decimal t)" "r2 \<in> set (one is_dot r1)"
      "r3 \<in> set (plus is_decimal r2)"
    by (auto simp: set_seq)
  from r(1) obtain ds where ds: "ds \<noteq> []" "list_all is_decimal ds" "t = ds @ r1"
    by (auto simp: plus_iff)
  from r(2) have r1: "r1 = 46 # r2" by (auto simp: one_iff is_dot_def)
  from r(3) obtain es where "es \<noteq> []" "list_all is_decimal es" "r2 = es @ r3"
    by (auto simp: plus_iff)
  then obtain d rest where "r2 = d # rest" "is_decimal d" by (cases es) auto
  with ds r1 show "\<exists>ds d rest. t = ds @ 46 # d # rest \<and> ds \<noteq> [] \<and> list_all is_decimal ds \<and> is_decimal d"
    by auto
next
  assume "\<exists>ds d rest. t = ds @ 46 # d # rest \<and> ds \<noteq> [] \<and> list_all is_decimal ds \<and> is_decimal d"
  then obtain ds d rest where t: "t = ds @ 46 # d # rest" "ds \<noteq> []" "list_all is_decimal ds"
      "is_decimal d" by blast
  have 1: "46 # d # rest \<in> set (plus is_decimal t)"
    using t by (auto simp: plus_iff)
  have 2: "d # rest \<in> set (one is_dot (46 # d # rest))"
    by (simp add: is_dot_def)
  have 3: "rest \<in> set (plus is_decimal (d # rest))"
    using t(4) by (auto simp: plus_iff intro: exI [of _ "[d]"])
  from 1 2 3 have "rest \<in> set (seq (plus is_decimal) (seq (one is_dot) (plus is_decimal)) t)"
    unfolding set_seq by blast
  then show "subnumbered t"
    unfolding subnumbered_def by auto
qed

lemma rstrip_keeps_prefix:
  assumes "pre \<noteq> []" and "\<not> P (last pre)"
  shows "rev (dropWhile P (rev (pre @ rest))) = pre @ rev (dropWhile P (rev rest))"
proof -
  have "dropWhile P (rev pre) = rev pre"
    using assms by (cases "rev pre") (auto simp: last_rev [symmetric] simp del: last_rev)
  then show ?thesis
    by (simp add: dropWhile_append)
qed

lemma lstrip_keeps: "s \<noteq> [] \<Longrightarrow> \<not> P (hd s) \<Longrightarrow> dropWhile P s = s"
  by (cases s) auto

lemma clean_title_keeps_prefix:
  assumes "pre \<noteq> []" and "\<not> is_space (hd pre)" and "\<not> is_space (last pre)" and "last pre \<noteq> 46"
  shows "\<exists>rest'. clean_title (pre @ rest) = pre @ rest'"
proof -
  have hd: "\<And>r. dropWhile is_space (pre @ r) = pre @ r"
    using assms(1,2) by (intro lstrip_keeps) auto
  have "strip (pre @ rest) = pre @ rev (dropWhile is_space (rev rest))" (is "_ = pre @ ?r1")
    by (simp only: strip_def hd rstrip_keeps_prefix [where P = is_space, OF assms(1,3)])
  moreover have "rstrip_chars (ustr ''.'') (pre @ ?r1) =
      pre @ rev (dropWhile (\<lambda>c. c \<in> set (ustr ''.'')) (rev ?r1))" (is "_ = pre @ ?r2")
    unfolding rstrip_chars_def
    by (rule rstrip_keeps_prefix) (use assms in \<open>auto simp: ustr_def\<close>)
  moreover have "strip (pre @ ?r2) = pre @ rev (dropWhile is_space (rev ?r2))"
    by (simp only: strip_def hd rstrip_keeps_prefix [where P = is_space, OF assms(1,3)])
  ultimately show ?thesis
    by (simp add: clean_title_def)
qed

lemma subnumbered_clean_title: "subnumbered g \<Longrightarrow> subnumbered (clean_title g)"
proof -
  assume "subnumbered g"
  then obtain ds d rest where g: "g = ds @ 46 # d # rest" "ds \<noteq> []" "list_all is_decimal ds"
      "is_decimal d"
    unfolding subnumbered_iff by blast
  let ?pre = "ds @ [46, d]"
  have "is_decimal (hd ds)" using g(2,3) by (cases ds) auto
  then have "\<not> is_space (hd ?pre)" using g(2) by (simp add: decimal_not_space)
  moreover have "\<not> is_space (last ?pre)" "last ?pre \<noteq> 46"
    using g(4) by (simp_all add: decimal_not_space decimal_not_dot)
  ultimately obtain rest' where "clean_title (?pre @ rest) = ?pre @ rest'"
    using clean_title_keeps_prefix [of ?pre rest] by auto
  then have "clean_title g = ds @ 46 # d # rest'"
    using g(1) by simp
  then show ?thesis
    unfolding subnumbered_iff using g(2,3,4) by blast
qed


subsection \<open>Reloaded text\<close>

lemma splitlines_break:
  "is_linebreak c \<Longrightarrow> \<not> (c = 13 \<and> (\<exists>ds. cs = 10 # ds)) \<Longrightarrow>
     splitlines (c # cs) = [] # splitlines cs"
  by (cases cs) auto

lemma splitlines_universal_newlines: "splitlines (universal_newlines s) = splitlines s"
proof (induction s rule: universal_newlines.induct)
  case 1
  show ?case by simp
next
  case (2 c cs)
  show ?case
  proof (cases "c = 13")
    case True
    show ?thesis
    proof (cases cs)
      case Nil
      with True show ?thesis by (simp add: is_linebreak_def)
    next
      case (Cons d ds)
      show ?thesis
      proof (cases "d = 10")
        case d: True
        have "splitlines (10 # universal_newlines ds) = [] # splitlines (universal_newlines ds)"
          by (rule splitlines_break) (simp_all add: is_linebreak_def)
        with True Cons d 2(1) show ?thesis by (simp add: is_linebreak_def)
      next
        case d: False
        have "splitlines (10 # universal_newlines cs) = [] # splitlines (universal_newlines cs)"
          by (rule splitlines_break) (simp_all add: is_linebreak_def)
        with True Cons d 2(2) show ?thesis by (simp add: is_linebreak_def)
      qed
    qed
  next
    case False
    show ?thesis
    proof (cases "is_linebreak c")
      case True
      have "splitlines (c # universal_newlines cs) = [] # splitlines (universal_newlines cs)"
        and "splitlines (c # cs) = [] # splitlines cs"
        using True False by (simp_all only: splitlines_break simp_thms not_False_eq_True)
      with False 2(3) show ?thesis by simp
    next
      case lb: False
      with False 2(3) show ?thesis by simp
    qed
  qed
qed

lemmas re_eval = ustr_def chapter_re_def chapter_head_def marker_def seq_def alt_def opt_def
  plus_def captures_def subnumbered_def clean_title_def strip_def rstrip_chars_def
  replace_char_def is_space_def is_decimal_ascii is_linebreak_def is_hash_def is_bullet_def
  is_sep_def is_dot_def any_char_def at_end_def ascii_lower_def en_dash_def em_dash_def
  candidate_def matches_chapter_def List.map_filter_simps

lemma candidate_Alpha:
  "candidate (ustr ''## Chapter 1 '' @ [en_dash] @ ustr '' Alpha'') = Some (ustr ''Alpha'')"
  by (simp add: re_eval cong: option.case_cong_weak)

lemma candidate_Beta: "candidate (ustr ''### Chapter 2 - Beta'') = Some (ustr ''Beta'')"
  by (simp add: re_eval cong: option.case_cong_weak)

lemma candidate_Gamma:
  "candidate (ustr ''- Chapter 3 '' @ [en_dash] @ ustr '' Gamma'') = Some (ustr ''Gamma'')"
  by (simp add: re_eval cong: option.case_cong_weak)

subsection \<open>The three heading variants\<close>

text \<open>
  C2: when the lines of the outline that match the chapter pattern are, in order of first
  appearance, \<open>## Chapter 1 \<midarrow> Alpha\<close> (with U+2013), \<open>### Chapter 2 - Beta\<close> and
  \<open>- Chapter 3 \<midarrow> Gamma\<close> (with U+2013), the Heading Extractor returns exactly Alpha, Beta,
  Gamma in this order. The markdown heading, the plain hyphen and the bullet with an en
  dash are all recognised.
\<close>

theorem heading_variants_recognized:
  assumes "first_occurrences (filter matches_chapter (splitlines outline)) =
     [ustr ''## Chapter 1 '' @ [en_dash] @ ustr '' Alpha'', ustr ''### Chapter 2 - Beta'',
      ustr ''- Chapter 3 '' @ [en_dash] @ ustr '' Gamma'']"
  shows "extract_chapter_titles outline = [ustr ''Alpha'', ustr ''Beta'', ustr ''Gamma'']"
proof -
  let ?L1 = "ustr ''## Chapter 1 '' @ [en_dash] @ ustr '' Alpha''"
  let ?L2 = "ustr ''### Chapter 2 - Beta''"
  let ?L3 = "ustr ''- Chapter 3 '' @ [en_dash] @ ustr '' Gamma''"
  let ?ms = "filter matches_chapter (splitlines outline)"
  let ?g = "\<lambda>raw. the (candidate raw)"
  have "set ?ms = set (first_occurrences ?ms)"
    by (simp only: set_first_occurrences)
  then have ms: "set ?ms = {?L1, ?L2, ?L3}"
    by (simp only: assms list.set)
  have g: "?g ?L1 = ustr ''Alpha''" "?g ?L2 = ustr ''Beta''" "?g ?L3 = ustr ''Gamma''"
    by (simp_all only: candidate_Alpha candidate_Beta candidate_Gamma option.sel)
  have diff: "ustr ''Alpha'' \<noteq> ustr ''Beta''" "ustr ''Alpha'' \<noteq> ustr ''Gamma''"
      "ustr ''Beta'' \<noteq> ustr ''Gamma''"
    by (simp_all add: ustr_def)
  have some: "\<forall>raw\<in>set ?ms. candidate raw = Some (?g raw)"
    unfolding ms using candidate_Alpha candidate_Beta candidate_Gamma by auto
  have inj: "inj_on ?g (set ?ms)"
    unfolding ms inj_on_def using g diff by auto
  have "extract_chapter_titles outline = first_occurrences (List.map_filter candidate ?ms)"
    by (simp only: extract_chapter_titles_eq map_filter_candidate_matching)
  also have "\<dots> = first_occurrences (map ?g ?ms)"
    by (simp only: map_filter_all_Some [OF some])
  also have "\<dots> = map ?g (first_occurrences ?ms)"
    by (rule first_occurrences_map [OF inj])
  also have "\<dots> = [ustr ''Alpha'', ustr ''Beta'', ustr ''Gamma'']"
    by (simp only: assms list.map g)
  finally show ?thesis .
qed

theorem heading_variants_recognized_witness:
  "extract_chapter_titles
     (ustr ''# My Book\<newline>\<newline>## Chapter 1 '' @ [en_dash] @ ustr '' Alpha\<newline>Some words.\<newline>### Chapter 2 - Beta\<newline>## Chapter 1 '' @ [en_dash]
        @ ustr '' Alpha\<newline>- Chapter 3 '' @ [en_dash] @ ustr '' Gamma\<newline>'')
   = [ustr ''Alpha'', ustr ''Beta'', ustr ''Gamma'']"
proof -
  have h: "first_occurrences (filter matches_chapter (splitlines
     (ustr ''# My Book\<newline>\<newline>## Chapter 1 '' @ [en_dash] @ ustr '' Alpha\<newline>Some words.\<newline>### Chapter 2 - Beta\<newline>## Chapter 1 '' @ [en_dash]
        @ ustr '' Alpha\<newline>- Chapter 3 '' @ [en_dash] @ ustr '' Gamma\<newline>''))) =
     [ustr ''## Chapter 1 '' @ [en_dash] @ ustr '' Alpha'', ustr ''### Chapter 2 - Beta'',
      ustr ''- Chapter 3 '' @ [en_dash] @ ustr '' Gamma'']"
    by (simp add: re_eval cong: option.case_cong_weak)
  show ?thesis by (rule heading_variants_recognized [OF h])
qed

subsection \<open>Duplicates\<close>

lemma extract_twice_X:
  "extract_chapter_titles (ustr ''Chapter 1 - X\<newline>Chapter 1 - X'') = [ustr ''X'']"
  by (simp add: extract_chapter_titles_eq re_eval cong: option.case_cong_weak)

lemma extract_X_x:
  "extract_chapter_titles (ustr ''Chapter 1 - X\<newline>Chapter 2 - x'') = [ustr ''X'', ustr ''x'']"
  by (simp add: extract_chapter_titles_eq re_eval cong: option.case_cong_weak)

text \<open>
  C3: the list returned by the Heading Extractor has no duplicates; it is the list of the
  titles its lines offer, with only the first occurrence of each kept, compared as exact
  strings. An outline in which \<open>Chapter 1 - X\<close> appears twice yields the single title X,
  while X and x are kept apart.
\<close>

theorem titles_first_occurrence_only:
  "distinct (extract_chapter_titles outline)
   \<and> extract_chapter_titles outline =
       first_occurrences (List.map_filter candidate (splitlines outline))
   \<and> extract_chapter_titles (ustr ''Chapter 1 - X\<newline>Chapter 1 - X'') = [ustr ''X'']
   \<and> extract_chapter_titles (ustr ''Chapter 1 - X\<newline>Chapter 2 - x'') = [ustr ''X'', ustr ''x'']"
proof -
  have "distinct (extract_chapter_titles outline)"
    by (simp only: extract_chapter_titles_eq distinct_first_occurrences)
  then show ?thesis
    using extract_chapter_titles_eq extract_twice_X extract_X_x by blast
qed

subsection \<open>The sub-numbering guard\<close>

lemma candidate_not_subnumbered: "candidate raw = Some t \<Longrightarrow> \<not> subnumbered t"
  by (auto simp: candidate_def split: option.splits if_splits)

lemma extract_sub_point:
  "extract_chapter_titles (ustr ''## Chapter 1 - 1.1 Sub point'') = []"
  by (simp add: extract_chapter_titles_eq re_eval cong: option.case_cong_weak)

text \<open>
  C4: no title returned by the Heading Extractor begins with digits, a period and digits;
  a line that matches the chapter pattern with a captured title of that form leaves the
  list of titles as it was; and the line \<open>## Chapter 1 - 1.1 Sub point\<close> contributes
  nothing.
\<close>

theorem subnumbered_titles_skipped:
  "(\<forall>t\<in>set (extract_chapter_titles outline). \<not> subnumbered t)
   \<and> (chapter_re (replace_char em_dash en_dash (strip raw)) = Some g \<longrightarrow> subnumbered g \<longrightarrow>
        extract_step titles raw = titles)
   \<and> extract_chapter_titles (ustr ''## Chapter 1 - 1.1 Sub point'') = []"
proof (intro conjI ballI impI)
  fix t
  assume "t \<in> set (extract_chapter_titles outline)"
  then obtain raw where "candidate raw = Some t"
    by (auto simp: extract_chapter_titles_eq set_first_occurrences List.map_filter_def)
  then show "\<not> subnumbered t"
    by (rule candidate_not_subnumbered)
next
  assume "chapter_re (replace_char em_dash en_dash (strip raw)) = Some g" and "subnumbered g"
  then have "candidate raw = None"
    by (simp add: candidate_def subnumbered_clean_title)
  then show "extract_step titles raw = titles"
    by (simp add: extract_step_candidate)
next
  show "extract_chapter_titles (ustr ''## Chapter 1 - 1.1 Sub point'') = []"
    by (rule extract_sub_point)
qed

theorem subnumbered_titles_skipped_witness:
  "extract_step [ustr ''Intro''] (ustr ''## Chapter 1 - 1.1 Sub point'') = [ustr ''Intro'']
   \<and> \<not> subnumbered (ustr ''Real'')"
proof -
  have h1: "chapter_re (replace_char em_dash en_dash (strip (ustr ''## Chapter 1 - 1.1 Sub point'')))
      = Some (ustr ''1.1 Sub point'')"
    by (simp add: re_eval)
  have h2: "subnumbered (ustr ''1.1 Sub point'')"
    by (simp add: re_eval)
  have h3: "ustr ''Real'' \<in> set (extract_chapter_titles (ustr ''## Chapter 2 - Real''))"
    by (simp add: extract_chapter_titles_eq re_eval cong: option.case_cong_weak)
  show ?thesis
    using subnumbered_titles_skipped [of "ustr ''## Chapter 2 - Real''"
        "ustr ''## Chapter 1 - 1.1 Sub point''" "ustr ''1.1 Sub point''" "[ustr ''Intro'']"]
      h1 h2 h3
    by blast
qed

subsection \<open>Determinism and totality\<close>

lemma extract_no_match:
  "\<forall>raw\<in>set (splitlines outline). \<not> matches_chapter raw \<Longrightarrow> extract_chapter_titles outline = []"
proof -
  assume "\<forall>raw\<in>set (splitlines outline). \<not> matches_chapter raw"
  then have "filter matches_chapter (splitlines outline) = []"
    by (simp add: filter_empty_conv)
  then have "List.map_filter candidate (splitlines outline) = []"
    using map_filter_candidate_matching [of "splitlines outline"]
    by (simp add: List.map_filter_simps)
  then show ?thesis
    by (simp add: extract_chapter_titles_eq)
qed









section \<open>Properties of the configuration\<close>

lemma ustr_eq_iff [simp]: "ustr a = ustr b \<longleftrightarrow> a = b"
proof -
  have "inj (of_char :: char \<Rightarrow> nat)"
    by (rule injI) simp
  then show ?thesis
    by (simp add: ustr_def inj_map_eq_map)
qed


subsection \<open>Templates\<close>

text \<open>
  C8: whatever the configuration, the quickstart template sets three chapters of 800
  words, an introduction and final thoughts of 300 to 500 words and a review request of
  150 to 250 words, so each lower bound is at most its upper bound; and a template name
  that is none of standard, quickstart and deepdive leaves the configuration as it is.
\<close>

theorem quickstart_template_values:
  "apply_template_defaults config (ustr ''quickstart'') (ustr ''num_chapters'') = Some (VInt 3)
   \<and> apply_template_defaults config (ustr ''quickstart'') (ustr ''chapter_length'') = Some (VInt 800)
   \<and> apply_template_defaults config (ustr ''quickstart'') (ustr ''intro_min_words'') = Some (VInt 300)
   \<and> apply_template_defaults config (ustr ''quickstart'') (ustr ''intro_max_words'') = Some (VInt 500)
   \<and> apply_template_defaults config (ustr ''quickstart'') (ustr ''final_min_words'') = Some (VInt 300)
   \<and> apply_template_defaults config (ustr ''quickstart'') (ustr ''final_max_words'') = Some (VInt 500)
   \<and> apply_template_defaults config (ustr ''quickstart'') (ustr ''review_min_words'') = Some (VInt 150)
   \<and> apply_template_defaults config (ustr ''quickstart'') (ustr ''review_max_words'') = Some (VInt 250)
   \<and> bounds_ordered (apply_template_defaults config (ustr ''quickstart''))
         (ustr ''intro_min_words'') (ustr ''intro_max_words'')
   \<and> bounds_ordered (apply_template_defaults config (ustr ''quickstart''))
         (ustr ''final_min_words'') (ustr ''final_max_words'')
   \<and> bounds_ordered (apply_template_defaults config (ustr ''quickstart''))
         (ustr ''review_min_words'') (ustr ''review_max_words'')
   \<and> (template \<noteq> ustr ''standard'' \<and> template \<noteq> ustr ''quickstart''
        \<and> template \<noteq> ustr ''deepdive'' \<longrightarrow> apply_template_defaults config template = config)"
  by (simp add: apply_template_defaults_def bounds_ordered_def)

theorem quickstart_template_values_witness:
  "apply_template_defaults [ustr ''num_chapters'' \<mapsto> VInt 5] (ustr ''premium'')
     = [ustr ''num_chapters'' \<mapsto> VInt 5]
   \<and> apply_template_defaults [ustr ''num_chapters'' \<mapsto> VInt 5] (ustr ''quickstart'')
        (ustr ''num_chapters'') = Some (VInt 3)"
proof -
  have h: "ustr ''premium'' \<noteq> ustr ''standard'' \<and> ustr ''premium'' \<noteq> ustr ''quickstart''
      \<and> ustr ''premium'' \<noteq> ustr ''deepdive''"
    by simp
  show ?thesis
    using quickstart_template_values [of "[ustr ''num_chapters'' \<mapsto> VInt 5]" "ustr ''premium''"] h
    by blast
qed

subsection \<open>The builder\<close>

lemma default_config_returns:
  "topic = [] \<or> split_ws topic \<noteq> [] \<Longrightarrow> \<exists>d. generate_default_config topic = Inr d"
  by (auto simp: generate_default_config_def Let_def split: list.splits)

lemma default_config_dom:
  assumes "generate_default_config topic = Inr d"
  shows "dom d = {ustr ''topic'', ustr ''main_keyword'', ustr ''theme'',
     ustr ''target_audience'', ustr ''tone'', ustr ''mood'', ustr ''distribution_platform'',
     ustr ''primary_format'', ustr ''chapter_length'', ustr ''interactive_elements_included''}"
proof -
  let ?kw = "if topic \<noteq> [] then (case split_ws topic of [] \<Rightarrow> Inl IndexError | w # ws \<Rightarrow> Inr w)
             else Inr (ustr ''wellness'')"
  show ?thesis
  proof (cases ?kw)
    case (Inl e)
    with assms show ?thesis
      by (simp only: generate_default_config_def Let_def sum.case) simp
  next
    case (Inr kw)
    with assms have "d = [ustr ''topic'' \<mapsto> VStr topic,
           ustr ''main_keyword'' \<mapsto> VStr kw,
           ustr ''theme'' \<mapsto> VStr (if contains (ustr ''beginner'') (lower topic)
                          \<or> contains (ustr ''start'') (lower topic) then ustr ''beginner-friendly transformation''
                                    else ustr ''science-backed sustainable change''),
           ustr ''target_audience'' \<mapsto>
             VStr (ustr ''busy professionals aged 30-50 seeking practical solutions''),
           ustr ''tone'' \<mapsto> VStr (ustr ''empowering''),
           ustr ''mood'' \<mapsto> VStr (ustr ''motivational''),
           ustr ''distribution_platform'' \<mapsto> VStr (ustr ''Amazon KDP''),
           ustr ''primary_format'' \<mapsto> VStr (ustr ''Kindle''),
           ustr ''chapter_length'' \<mapsto> VInt 2000,
           ustr ''interactive_elements_included'' \<mapsto>
             VStr (ustr ''Printable Tracker, Progress Checklist, Habit Worksheet'')]"
      by (simp only: generate_default_config_def Let_def sum.case sum.inject)
    then show ?thesis
      by (simp only: dom_fun_upd dom_empty option.simps if_False) blast
  qed
qed

lemma default_config_keys:
  "generate_default_config topic = Inr d \<Longrightarrow> k \<in> set required_keys \<Longrightarrow>
     k \<in> dom (add_system_defaults d)"
  by (drule default_config_dom)
     (simp only: add_system_defaults_def dom_fun_upd option.simps if_False required_keys_def
       list.set, blast)

lemma system_defaults_values:
  "add_system_defaults config (ustr ''min_search_results'') = Some (VInt 12000000)"
  "add_system_defaults config (ustr ''num_chapters'') = Some (VInt 5)"
  by (simp_all add: add_system_defaults_def)

lemma builder_result:
  "generate_config_from_topic safe_load topic client = Inr config \<Longrightarrow>
     \<exists>c. config = add_system_defaults c"
  by (auto simp: generate_config_from_topic_def split: option.splits sum.splits)

lemma builder_no_client:
  "generate_default_config topic = Inr d \<Longrightarrow>
     generate_config_from_topic safe_load topic None = Inr (add_system_defaults d)"
  by (simp add: generate_config_from_topic_def)

lemma builder_parse_failure:
  "generate_default_config topic = Inr d \<Longrightarrow> generate c (config_prompt topic) = Inr reply \<Longrightarrow>
     parse_reply safe_load reply = Inl e \<Longrightarrow>
     generate_config_from_topic safe_load topic (Some c) = Inr (add_system_defaults d)"
  by (simp add: generate_config_from_topic_def)

lemma builder_parse_success:
  "generate c (config_prompt topic) = Inr reply \<Longrightarrow> parse_reply safe_load reply = Inr parsed \<Longrightarrow>
     generate_config_from_topic safe_load topic (Some c) = Inr (add_system_defaults parsed)"
  by (simp add: generate_config_from_topic_def)

lemma builder_returns:
  assumes "topic = [] \<or> split_ws topic \<noteq> []"
    and "client = None \<or> (\<exists>c reply. client = Some c \<and> generate c (config_prompt topic) = Inr reply)"
  shows "\<exists>config. generate_config_from_topic safe_load topic client = Inr config"
proof -
  obtain d where d: "generate_default_config topic = Inr d"
    using default_config_returns [OF assms(1)] by blast
  from assms(2) show ?thesis
  proof
    assume "client = None"
    with d show ?thesis by (simp add: builder_no_client)
  next
    assume "\<exists>c reply. client = Some c \<and> generate c (config_prompt topic) = Inr reply"
    then obtain c reply where c: "client = Some c" "generate c (config_prompt topic) = Inr reply"
      by blast
    show ?thesis
    proof (cases "parse_reply safe_load reply")
      case (Inl e)
      with c d show ?thesis by (simp add: builder_parse_failure)
    next
      case (Inr parsed)
      with c show ?thesis by (simp add: builder_parse_success)
    qed
  qed
qed

text \<open>
  C7: every configuration that the Configuration Builder returns has
  \<open>min_search_results\<close> 12000000 and \<open>num_chapters\<close> 5, whatever the backend suggested
  for these keys; and it does return one when no backend is given or the backend's
  \<open>generate\<close> has returned a reply, for a topic that is empty or holds a word.
\<close>

theorem system_defaults_forced:
  "(generate_config_from_topic safe_load topic client = Inr config \<longrightarrow>
      config (ustr ''min_search_results'') = Some (VInt 12000000)
      \<and> config (ustr ''num_chapters'') = Some (VInt 5))
   \<and> ((topic = [] \<or> split_ws topic \<noteq> [])
        \<and> (client = None \<or> (\<exists>c reply. client = Some c \<and> generate c (config_prompt topic) = Inr reply))
       \<longrightarrow> (\<exists>config'. generate_config_from_topic safe_load topic client = Inr config'))"
proof (intro conjI impI)
  assume "generate_config_from_topic safe_load topic client = Inr config"
  then obtain c where "config = add_system_defaults c"
    using builder_result by blast
  then show "config (ustr ''min_search_results'') = Some (VInt 12000000)"
    and "config (ustr ''num_chapters'') = Some (VInt 5)"
    by (simp_all add: system_defaults_values)
next
  assume "(topic = [] \<or> split_ws topic \<noteq> [])
        \<and> (client = None \<or> (\<exists>c reply. client = Some c \<and> generate c (config_prompt topic) = Inr reply))"
  then show "\<exists>config'. generate_config_from_topic safe_load topic client = Inr config'"
    by (intro builder_returns) simp_all
qed

lemma suggested_config:
  "generate_config_from_topic suggesting_yaml (ustr ''yoga'') (Some (fixed_client (ustr ''topic: yoga'')))
     = Inr (add_system_defaults [ustr ''topic'' \<mapsto> VStr (ustr ''yoga''),
         ustr ''min_search_results'' \<mapsto> VInt 1, ustr ''num_chapters'' \<mapsto> VInt 99])"
proof -
  have "extract_yaml_block (ustr ''topic: yoga'') = Inr (ustr ''topic: yoga'')"
    by (simp add: extract_yaml_block_def fence_def ustr_def)
  then have "parse_reply suggesting_yaml (ustr ''topic: yoga'') =
      Inr [ustr ''topic'' \<mapsto> VStr (ustr ''yoga''),
         ustr ''min_search_results'' \<mapsto> VInt 1, ustr ''num_chapters'' \<mapsto> VInt 99]"
    by (simp add: parse_reply_def suggesting_yaml_def)
  then show ?thesis
    by (intro builder_parse_success) (simp_all add: fixed_client_def)
qed

theorem system_defaults_forced_witness:
  "add_system_defaults [ustr ''topic'' \<mapsto> VStr (ustr ''yoga''),
         ustr ''min_search_results'' \<mapsto> VInt 1, ustr ''num_chapters'' \<mapsto> VInt 99]
       (ustr ''min_search_results'') = Some (VInt 12000000)
   \<and> add_system_defaults [ustr ''topic'' \<mapsto> VStr (ustr ''yoga''),
         ustr ''min_search_results'' \<mapsto> VInt 1, ustr ''num_chapters'' \<mapsto> VInt 99]
       (ustr ''num_chapters'') = Some (VInt 5)
   \<and> (\<exists>config'. generate_config_from_topic suggesting_yaml [] None = Inr config')"
proof -
  let ?suggested = "add_system_defaults [ustr ''topic'' \<mapsto> VStr (ustr ''yoga''),
         ustr ''min_search_results'' \<mapsto> VInt 1, ustr ''num_chapters'' \<mapsto> VInt 99]"
  have 1: "?suggested (ustr ''min_search_results'') = Some (VInt 12000000)
      \<and> ?suggested (ustr ''num_chapters'') = Some (VInt 5)"
    by (rule system_defaults_forced [of suggesting_yaml "ustr ''yoga''"
          "Some (fixed_client (ustr ''topic: yoga''))" ?suggested,
          THEN conjunct1, THEN mp, OF suggested_config])
  have h: "(([] :: pystr) = [] \<or> split_ws [] \<noteq> [])
        \<and> ((None :: llm_client option) = None
            \<or> (\<exists>c reply. None = Some c \<and> generate c (config_prompt []) = Inr reply))"
    by simp
  have 2: "\<exists>config'. generate_config_from_topic suggesting_yaml [] None = Inr config'"
    by (rule system_defaults_forced [where safe_load = suggesting_yaml and topic = "[]"
          and client = None, THEN conjunct2, THEN mp, OF h])
  from 1 2 show ?thesis by (intro conjI) (erule conjunct1, erule conjunct2, assumption)
qed

text \<open>
  C6, as stated, fails: a failure of the backend's \<open>generate\<close> call reaches the caller of
  the Configuration Builder.
\<close>

theorem builder_propagates_backend_failure:
  "generate_config_from_topic rejecting_yaml (ustr ''weight loss for beginners'')
     (Some failing_client) = Inl (BackendError (ustr ''connection refused''))"
  by (simp add: generate_config_from_topic_def failing_client_def)

lemma builder_generate_failure:
  "generate c (config_prompt topic) = Inl e \<Longrightarrow>
     generate_config_from_topic safe_load topic (Some c) = Inl e"
  by (simp add: generate_config_from_topic_def)

text \<open>
  On the two fallback paths a topic of whitespace only makes \<open>topic.split()[0]\<close> raise:
  the guard \<open>if topic else 'wellness'\<close> lets it through.
\<close>

lemma blank_topic_raises:
  "generate_config_from_topic safe_load (ustr '' '') None = Inl IndexError"
  by (simp add: generate_config_from_topic_def generate_default_config_def Let_def split_ws_def
      ustr_def is_space_def)

text \<open>
  C6, amended: a failure of the backend's \<open>generate\<close> call reaches the caller. When
  \<open>generate\<close> has returned a reply that parses into a mapping, the Configuration
  Builder returns that mapping, for every topic. Without a backend, and when the reply
  cannot be parsed into a mapping, it returns the heuristic defaults, which hold every
  required key, for a topic that is empty or holds a character that is not whitespace.
  In each returned configuration the two system keys are set on top.
\<close>

theorem builder_degrades_to_defaults:
  "(generate c (config_prompt topic) = Inl e \<longrightarrow>
      generate_config_from_topic safe_load topic (Some c) = Inl e)
   \<and> (generate c (config_prompt topic) = Inr reply \<and> parse_reply safe_load reply = Inr parsed \<longrightarrow>
        generate_config_from_topic safe_load topic (Some c) = Inr (add_system_defaults parsed))
   \<and> (topic = [] \<or> split_ws topic \<noteq> [] \<longrightarrow>
        (\<exists>d. generate_default_config topic = Inr d
           \<and> (\<forall>k\<in>set required_keys. k \<in> dom (add_system_defaults d))
           \<and> generate_config_from_topic safe_load topic None = Inr (add_system_defaults d)
           \<and> (generate c (config_prompt topic) = Inr reply \<and> parse_reply safe_load reply = Inl e'
                \<longrightarrow> generate_config_from_topic safe_load topic (Some c)
                      = Inr (add_system_defaults d))))"
proof (intro conjI impI)
  assume "generate c (config_prompt topic) = Inl e"
  then show "generate_config_from_topic safe_load topic (Some c) = Inl e"
    by (rule builder_generate_failure)
next
  assume "generate c (config_prompt topic) = Inr reply \<and> parse_reply safe_load reply = Inr parsed"
  then show "generate_config_from_topic safe_load topic (Some c) = Inr (add_system_defaults parsed)"
    by (simp add: builder_parse_success)
next
  assume "topic = [] \<or> split_ws topic \<noteq> []"
  then obtain d where d: "generate_default_config topic = Inr d"
    using default_config_returns by blast
  have "\<forall>k\<in>set required_keys. k \<in> dom (add_system_defaults d)"
    using default_config_keys [OF d] by blast
  moreover have "generate c (config_prompt topic) = Inr reply \<and> parse_reply safe_load reply = Inl e'
      \<longrightarrow> generate_config_from_topic safe_load topic (Some c) = Inr (add_system_defaults d)"
    using d by (simp add: builder_parse_failure)
  ultimately show "\<exists>d. generate_default_config topic = Inr d
           \<and> (\<forall>k\<in>set required_keys. k \<in> dom (add_system_defaults d))
           \<and> generate_config_from_topic safe_load topic None = Inr (add_system_defaults d)
           \<and> (generate c (config_prompt topic) = Inr reply \<and> parse_reply safe_load reply = Inl e'
                \<longrightarrow> generate_config_from_topic safe_load topic (Some c)
                      = Inr (add_system_defaults d))"
    using d builder_no_client [OF d] by blast
qed

lemma split_ws_weight_loss: "split_ws (ustr ''weight loss for beginners'') \<noteq> []"
  by (simp add: split_ws_def ustr_def is_space_def)

lemma parse_no_yaml: "parse_reply rejecting_yaml (ustr ''no yaml here'') = Inl ValueError"
proof -
  have "extract_yaml_block (ustr ''no yaml here'') = Inr (ustr ''no yaml here'')"
    by (simp add: extract_yaml_block_def fence_def ustr_def)
  then show ?thesis
    by (simp add: parse_reply_def rejecting_yaml_def)
qed

lemma parse_suggested:
  "parse_reply suggesting_yaml (ustr ''topic: yoga'') =
     Inr [ustr ''topic'' \<mapsto> VStr (ustr ''yoga''),
          ustr ''min_search_results'' \<mapsto> VInt 1, ustr ''num_chapters'' \<mapsto> VInt 99]"
proof -
  have "extract_yaml_block (ustr ''topic: yoga'') = Inr (ustr ''topic: yoga'')"
    by (simp add: extract_yaml_block_def fence_def ustr_def)
  then show ?thesis
    by (simp add: parse_reply_def suggesting_yaml_def)
qed

theorem builder_degrades_to_defaults_witness:
  "generate_config_from_topic rejecting_yaml (ustr ''yoga'') (Some failing_client)
     = Inl (BackendError (ustr ''connection refused''))
   \<and> generate_config_from_topic suggesting_yaml (ustr '' '') (Some (fixed_client (ustr ''topic: yoga'')))
     = Inr (add_system_defaults [ustr ''topic'' \<mapsto> VStr (ustr ''yoga''),
          ustr ''min_search_results'' \<mapsto> VInt 1, ustr ''num_chapters'' \<mapsto> VInt 99])
   \<and> (\<exists>d. generate_default_config (ustr ''weight loss for beginners'') = Inr d
        \<and> generate_config_from_topic rejecting_yaml (ustr ''weight loss for beginners'') None
            = Inr (add_system_defaults d)
        \<and> generate_config_from_topic rejecting_yaml (ustr ''weight loss for beginners'')
            (Some (fixed_client (ustr ''no yaml here''))) = Inr (add_system_defaults d))"
proof -
  let ?topic = "ustr ''weight loss for beginners''"
  have a: "generate failing_client (config_prompt (ustr ''yoga''))
      = Inl (BackendError (ustr ''connection refused''))"
    by (simp add: failing_client_def)
  have 1: "generate_config_from_topic rejecting_yaml (ustr ''yoga'') (Some failing_client)
     = Inl (BackendError (ustr ''connection refused''))"
    by (rule builder_degrades_to_defaults [where c = failing_client and topic = "ustr ''yoga''"
          and safe_load = rejecting_yaml, THEN conjunct1, THEN mp, OF a])
  have b: "generate (fixed_client (ustr ''topic: yoga'')) (config_prompt (ustr '' ''))
       = Inr (ustr ''topic: yoga'')
     \<and> parse_reply suggesting_yaml (ustr ''topic: yoga'') =
       Inr [ustr ''topic'' \<mapsto> VStr (ustr ''yoga''),
          ustr ''min_search_results'' \<mapsto> VInt 1, ustr ''num_chapters'' \<mapsto> VInt 99]"
    by (simp add: fixed_client_def parse_suggested)
  have 2: "generate_config_from_topic suggesting_yaml (ustr '' '')
      (Some (fixed_client (ustr ''topic: yoga'')))
     = Inr (add_system_defaults [ustr ''topic'' \<mapsto> VStr (ustr ''yoga''),
          ustr ''min_search_results'' \<mapsto> VInt 1, ustr ''num_chapters'' \<mapsto> VInt 99])"
    by (rule builder_degrades_to_defaults [where c = "fixed_client (ustr ''topic: yoga'')"
          and topic = "ustr '' ''" and safe_load = suggesting_yaml,
          THEN conjunct2, THEN conjunct1, THEN mp, OF b])
  have h: "?topic = [] \<or> split_ws ?topic \<noteq> []"
    using split_ws_weight_loss by simp
  have g: "generate (fixed_client (ustr ''no yaml here'')) (config_prompt ?topic)
      = Inr (ustr ''no yaml here'') \<and> parse_reply rejecting_yaml (ustr ''no yaml here'') = Inl ValueError"
    by (simp add: fixed_client_def parse_no_yaml)
  have 3: "\<exists>d. generate_default_config ?topic = Inr d
        \<and> generate_config_from_topic rejecting_yaml ?topic None = Inr (add_system_defaults d)
        \<and> generate_config_from_topic rejecting_yaml ?topic
            (Some (fixed_client (ustr ''no yaml here''))) = Inr (add_system_defaults d)"
    using builder_degrades_to_defaults [where c = "fixed_client (ustr ''no yaml here'')"
          and topic = ?topic and safe_load = rejecting_yaml and reply = "ustr ''no yaml here''"
          and e' = ValueError, THEN conjunct2, THEN conjunct2, THEN mp, OF h] g
    by blast
  from 1 2 3 show ?thesis by (intro conjI)
qed

section \<open>Properties of the stages\<close>

subsection \<open>Stage 1\<close>

lemma stage_1_prompt_ok:
  assumes "\<forall>k\<in>set prompt_keys. k \<in> dom config"
  shows "\<exists>prompt. stage_1_prompt config = Inr prompt"
proof -
  from assms obtain topic tone mood theme main_keyword target_audience where
    "config (ustr ''topic'') = Some topic" "config (ustr ''tone'') = Some tone"
    "config (ustr ''mood'') = Some mood" "config (ustr ''theme'') = Some theme"
    "config (ustr ''main_keyword'') = Some main_keyword"
    "config (ustr ''target_audience'') = Some target_audience"
    unfolding prompt_keys_def by (simp add: dom_def) blast
  then show ?thesis
    by (simp add: stage_1_prompt_def getitem_def)
qed

lemma stage_1_with_backend:
  "stage_1_prompt config = Inr prompt \<Longrightarrow> stream_generate c prompt = Inr response \<Longrightarrow>
     stage_1_seo_queries config (Some c) = Inr (map VStr (take 5 (reply_entries response)))"
  by (simp add: stage_1_seo_queries_def reply_entries_def)

lemma stage_1_without_backend:
  "stage_1_prompt config = Inr prompt \<Longrightarrow> config (ustr ''main_keyword'') = Some kw \<Longrightarrow>
     stage_1_seo_queries config None =
       Inr [kw, VStr (py_str kw @ ustr '' guide''), VStr (py_str kw @ ustr '' tips''),
            VStr (ustr ''how to '' @ py_str kw), VStr (py_str kw @ ustr '' for beginners'')]"
  by (simp add: stage_1_seo_queries_def getitem_def)

text \<open>
  C9: for a configuration that holds the keys of the prompt, stage 1 with a backend
  returns the first five entries of the reply (its lines, trimmed, blank ones dropped),
  so exactly five when the reply has at least five and never more entries than the
  reply has; without a backend it returns exactly five entries built from
  \<open>main_keyword\<close>: the keyword itself and four templated strings.
\<close>

theorem stage_1_five_queries:
  assumes "\<forall>k\<in>set prompt_keys. k \<in> dom config"
  shows "\<exists>prompt kw. stage_1_prompt config = Inr prompt
     \<and> config (ustr ''main_keyword'') = Some kw
     \<and> (\<forall>c response. stream_generate c prompt = Inr response \<longrightarrow>
          (\<exists>qs. stage_1_seo_queries config (Some c) = Inr qs
             \<and> qs = map VStr (take 5 (reply_entries response))
             \<and> length qs = min 5 (length (reply_entries response))
             \<and> (5 \<le> length (reply_entries response) \<longrightarrow> length qs = 5)))
     \<and> stage_1_seo_queries config None =
          Inr [kw, VStr (py_str kw @ ustr '' guide''), VStr (py_str kw @ ustr '' tips''),
               VStr (ustr ''how to '' @ py_str kw), VStr (py_str kw @ ustr '' for beginners'')]
     \<and> (\<forall>qs. stage_1_seo_queries config None = Inr qs \<longrightarrow> length qs = 5)"
proof -
  obtain prompt where p: "stage_1_prompt config = Inr prompt"
    using stage_1_prompt_ok [OF assms] by blast
  obtain kw where kw: "config (ustr ''main_keyword'') = Some kw"
    using assms unfolding prompt_keys_def by (simp add: dom_def) blast
  have "\<forall>c response. stream_generate c prompt = Inr response \<longrightarrow>
          (\<exists>qs. stage_1_seo_queries config (Some c) = Inr qs
             \<and> qs = map VStr (take 5 (reply_entries response))
             \<and> length qs = min 5 (length (reply_entries response))
             \<and> (5 \<le> length (reply_entries response) \<longrightarrow> length qs = 5))"
    by (simp add: stage_1_with_backend [OF p] min_def)
  moreover have "\<forall>qs. stage_1_seo_queries config None = Inr qs \<longrightarrow> length qs = 5"
    by (simp add: stage_1_without_backend [OF p kw])
  ultimately show ?thesis
    using p kw stage_1_without_backend [OF p kw] by blast
qed

lemma small_config_keys: "\<forall>k\<in>set prompt_keys. k \<in> dom small_config"
  by (simp add: prompt_keys_def small_config_def)

lemma reply_entries_example:
  "reply_entries (ustr ''yoga\<newline>  yoga poses \<newline>\<newline>yoga mat\<newline>morning yoga\<newline>yoga for sleep\<newline>yoga nidra\<newline>'')
     = [ustr ''yoga'', ustr ''yoga poses'', ustr ''yoga mat'', ustr ''morning yoga'',
        ustr ''yoga for sleep'', ustr ''yoga nidra'']"
  by (simp add: reply_entries_def split_def strip_def is_space_def ustr_def)

theorem stage_1_five_queries_witness:
  "stage_1_seo_queries small_config
     (Some (fixed_client (ustr ''yoga\<newline>  yoga poses \<newline>\<newline>yoga mat\<newline>morning yoga\<newline>yoga for sleep\<newline>yoga nidra\<newline>'')))
     = Inr [VStr (ustr ''yoga''), VStr (ustr ''yoga poses''), VStr (ustr ''yoga mat''),
            VStr (ustr ''morning yoga''), VStr (ustr ''yoga for sleep'')]
   \<and> stage_1_seo_queries small_config None =
       Inr [VStr (ustr ''yoga''), VStr (ustr ''yoga guide''), VStr (ustr ''yoga tips''),
            VStr (ustr ''how to yoga''), VStr (ustr ''yoga for beginners'')]"
proof -
  let ?reply = "ustr ''yoga\<newline>  yoga poses \<newline>\<newline>yoga mat\<newline>morning yoga\<newline>yoga for sleep\<newline>yoga nidra\<newline>''"
  obtain prompt kw where p: "small_config (ustr ''main_keyword'') = Some kw"
    and b: "\<forall>c response. stream_generate c prompt = Inr response \<longrightarrow>
          (\<exists>qs. stage_1_seo_queries small_config (Some c) = Inr qs
             \<and> qs = map VStr (take 5 (reply_entries response))
             \<and> length qs = min 5 (length (reply_entries response))
             \<and> (5 \<le> length (reply_entries response) \<longrightarrow> length qs = 5))"
    and n: "stage_1_seo_queries small_config None =
          Inr [kw, VStr (py_str kw @ ustr '' guide''), VStr (py_str kw @ ustr '' tips''),
               VStr (ustr ''how to '' @ py_str kw), VStr (py_str kw @ ustr '' for beginners'')]"
    using stage_1_five_queries [OF small_config_keys] by blast
  have kw: "kw = VStr (ustr ''yoga'')"
    using p by (simp add: small_config_def)
  have "stream_generate (fixed_client ?reply) prompt = Inr ?reply"
    by (simp add: fixed_client_def)
  with b have "stage_1_seo_queries small_config (Some (fixed_client ?reply))
      = Inr (map VStr (take 5 (reply_entries ?reply)))"
    by blast
  then have 1: "stage_1_seo_queries small_config (Some (fixed_client ?reply))
      = Inr [VStr (ustr ''yoga''), VStr (ustr ''yoga poses''), VStr (ustr ''yoga mat''),
            VStr (ustr ''morning yoga''), VStr (ustr ''yoga for sleep'')]"
    by (simp add: reply_entries_example)
  have 2: "stage_1_seo_queries small_config None =
       Inr [VStr (ustr ''yoga''), VStr (ustr ''yoga guide''), VStr (ustr ''yoga tips''),
            VStr (ustr ''how to yoga''), VStr (ustr ''yoga for beginners'')]"
    using n by (simp add: kw py_str_def ustr_def)
  from 1 2 show ?thesis by (rule conjI)
qed

subsection \<open>Stage 4 reads the outline back\<close>

lemma universal_newlines_Nil_iff: "universal_newlines s = [] \<longleftrightarrow> s = []"
  by (cases s) (auto split: list.splits)

lemma extract_Nil: "extract_chapter_titles [] = []"
  by (simp add: extract_chapter_titles_def)

lemma stage_4_chapters_read:
  assumes "config (ustr ''output_dir'') = Some (VStr dir)"
    and "fs (dir, ustr ''stage_2_outline.md'') = Some outline"
  shows "stage_4_chapters config queries client fs =
     (case (if extract_chapter_titles outline = [] then fallback_titles config
            else Inr (extract_chapter_titles outline)) of
        Inl e \<Rightarrow> Inl e
      | Inr titles \<Rightarrow> write_chapters config client (List.enumerate 1 titles))"
proof -
  have same: "extract_chapter_titles (universal_newlines outline) = extract_chapter_titles outline"
    by (simp only: extract_chapter_titles_def splitlines_universal_newlines)
  show ?thesis
  proof (cases "outline = []")
    case True
    with assms show ?thesis
      by (simp add: stage_4_chapters_def get_default_def extract_Nil)
  next
    case False
    with assms same show ?thesis
      by (simp add: stage_4_chapters_def get_default_def universal_newlines_Nil_iff)
  qed
qed

subsection \<open>The Compiler and the pipeline\<close>




lemma execute_pipeline_run:
  assumes "stage_1_seo_queries config client = Inr queries"
    and "join_values [10] queries = Inr queries_text"
    and "stage_2_outline config queries client = Inr outline"
    and "config2 = config(ustr ''output_dir'' \<mapsto> VStr output_dir)"
    and "(case (if extract_chapter_titles outline = [] then fallback_titles config2
            else Inr (extract_chapter_titles outline)) of
        Inl e \<Rightarrow> Inl e
      | Inr titles \<Rightarrow> write_chapters config2 client (List.enumerate 1 titles))
        = Inr (first_chapter # others)"
    and "stage_6_cover config2 first_chapter client = Inr cover_prompt"
    and "res = \<lparr>r_config = config2, r_queries = Some queries, r_outline = Some outline,
            r_toc = Some (stage_3_toc outline client), r_chapters = Some (first_chapter # others),
            r_optimized_chapters = Some (first_chapter # others),
            r_cover_prompt = Some cover_prompt,
            r_interactive_elements = Some (stage_7_interactive (first_chapter # others) client),
            r_diagram_prompts = Some (stage_8_diagrams (first_chapter # others) client),
            r_background_prompts = Some (stage_9_backgrounds (first_chapter # others) client),
            r_output_dir = output_dir\<rparr>"
    and "ebook_document res None = Inr document"
    and "json_metadata h config2 (output_dir, ustr ''FINAL_EBOOK.md'') = Inr metadata"
  shows "\<exists>fs'. execute_pipeline h config output_dir client fs = Inr (res, fs')
     \<and> fs' (output_dir, ustr ''FINAL_EBOOK.md'') = Some document"
proof -
  let ?fs3 = "save_stage_output (save_stage_output (save_stage_output fs output_dir
      (ustr ''stage_1_queries.txt'') queries_text) output_dir (ustr ''stage_2_outline.md'') outline)
      output_dir (ustr ''stage_3_toc.md'') (stage_3_toc outline client)"
  have "stage_4_chapters config2 queries client ?fs3 = Inr (first_chapter # others)"
    using assms(5)
    by (subst stage_4_chapters_read [where dir = output_dir and outline = outline])
       (simp_all add: assms(4) save_stage_output_def)
  then show ?thesis
    using assms(1,2,3,6,8,9)
    by (simp add: execute_pipeline_def Let_def compile_ebook_def stage_5_optimize_def
        save_stage_output_def assms(4) [symmetric] assms(7) [symmetric])
qed


lemma strip_id: "s \<noteq> [] \<Longrightarrow> \<not> is_space (hd s) \<Longrightarrow> \<not> is_space (last s) \<Longrightarrow> strip s = s"
proof -
  assume s: "s \<noteq> []" and h: "\<not> is_space (hd s)" and l: "\<not> is_space (last s)"
  have "dropWhile is_space s = s"
    using s h by (cases s) auto
  moreover have "dropWhile is_space (rev s) = rev s"
    using s l by (cases "rev s") (auto simp: last_rev [symmetric] simp del: last_rev)
  ultimately show ?thesis
    by (simp add: strip_def)
qed

lemma ustr_Nil_iff [simp]: "ustr s = [] \<longleftrightarrow> s = []"
  by (simp add: ustr_def)

lemma hd_ustr: "s \<noteq> [] \<Longrightarrow> hd (ustr s) = of_char (hd s)"
  by (simp add: ustr_def hd_map)

lemma last_ustr: "s \<noteq> [] \<Longrightarrow> last (ustr s) = of_char (last s)"
  by (simp add: ustr_def last_map)

lemma strip_mock_outline_text: "strip mock_outline_text = mock_outline_text"
proof (rule strip_id)
  show "mock_outline_text \<noteq> []"
    by (simp add: mock_outline_text_def)
  show "\<not> is_space (hd mock_outline_text)"
    by (simp add: mock_outline_text_def hd_ustr is_space_def)
  show "\<not> is_space (last mock_outline_text)"
    by (simp add: mock_outline_text_def last_ustr is_space_def)
qed

lemma truthy_simps:
  "truthy VNone = False" "truthy (VInt i) = (i \<noteq> 0)" "truthy (VBool b) = b"
  "truthy (VStr s) = (s \<noteq> [])" "truthy (VObj t b) = b"
  by (simp_all add: truthy_def)


lemma not_truthy_zero_or_missing:
  "config key = Some (VInt 0) \<or> config key = None \<Longrightarrow> \<not> truthy (get_default config key VNone)"
  by (auto simp: get_default_def truthy_def)


subsection \<open>A run with a backend and an introduction bound of zero\<close>

lemmas text_eval = ustr_def py_str_def str_int_def str_nat.simps lower_def lower_cp_def
  strip_def is_space_def





lemma title_yoga: "title (ustr ''yoga at home'') = ustr ''Yoga At Home''"
  by (simp add: title_def ustr_def is_ascii_letter_def ascii_upper_def ascii_lower_def)




subsection \<open>The end-to-end fallback scenario\<close>

lemma scenario_default_config:
  "generate_default_config (ustr ''weight loss for beginners'') = Inr scenario_defaults"
  by (simp add: generate_default_config_def scenario_defaults_def Let_def split_ws_def
      lower_def lower_cp_def is_space_def ustr_def)

lemma scenario_builder:
  "generate_config_from_topic safe_load (ustr ''weight loss for beginners'') None
     = Inr (add_system_defaults scenario_defaults)"
  by (rule builder_no_client [OF scenario_default_config])

lemmas scenario_config_defs = scenario_config_def apply_template_defaults_def
  add_system_defaults_def scenario_defaults_def

lemma scenario_keys: "\<forall>k\<in>set prompt_keys. k \<in> dom scenario_config"
  by (simp add: prompt_keys_def scenario_config_defs)

lemma scenario_lookups:
  "scenario_config (ustr ''topic'') = Some (VStr (ustr ''weight loss for beginners''))"
  "scenario_config (ustr ''main_keyword'') = Some (VStr (ustr ''weight''))"
  "scenario_config (ustr ''target_audience'') =
     Some (VStr (ustr ''busy professionals aged 30-50 seeking practical solutions''))"
  "scenario_config (ustr ''num_chapters'') = Some (VInt 5)"
  "scenario_config (ustr ''intro_min_words'') = Some (VInt 600)"
  "scenario_config (ustr ''intro_max_words'') = Some (VInt 900)"
  "scenario_config (ustr ''final_min_words'') = Some (VInt 600)"
  "scenario_config (ustr ''final_max_words'') = Some (VInt 900)"
  "scenario_config (ustr ''review_min_words'') = Some (VInt 300)"
  "scenario_config (ustr ''review_max_words'') = Some (VInt 500)"
  by (simp_all add: scenario_config_defs)

lemma title_scenario:
  "title (ustr ''weight loss for beginners'') = ustr ''Weight Loss For Beginners''"
  by (simp add: title_def ustr_def is_ascii_letter_def ascii_upper_def ascii_lower_def)

lemma scenario_stage_2:
  "stage_2_outline scenario_config queries None = Inr scenario_outline"
  by (simp add: stage_2_outline_def getitem_def scenario_lookups title_scenario
      scenario_outline_def) (simp add: ustr_def)

lemma scenario_lines:
  "splitlines scenario_outline =
     [ustr ''# Weight Loss For Beginners'', [], ustr ''## Outline'', [], ustr ''- Chapter 1'',
      ustr ''- Chapter 2'', ustr ''- Chapter 3'', ustr ''- Chapter 4'', ustr ''- Chapter 5'']"
  by (simp add: scenario_outline_def ustr_def is_linebreak_def)

lemma scenario_no_titles: "extract_chapter_titles scenario_outline = []"
proof (rule extract_no_match)
  have "\<not> matches_chapter (ustr ''# Weight Loss For Beginners'')" "\<not> matches_chapter []"
    "\<not> matches_chapter (ustr ''## Outline'')" "\<not> matches_chapter (ustr ''- Chapter 1'')"
    "\<not> matches_chapter (ustr ''- Chapter 2'')" "\<not> matches_chapter (ustr ''- Chapter 3'')"
    "\<not> matches_chapter (ustr ''- Chapter 4'')" "\<not> matches_chapter (ustr ''- Chapter 5'')"
    by (simp_all add: re_eval)
  then show "\<forall>raw\<in>set (splitlines scenario_outline). \<not> matches_chapter raw"
    by (simp add: scenario_lines)
qed

lemma scenario_toc: "stage_3_toc scenario_outline client = toc_placeholder"
  by (simp add: stage_3_toc_def scenario_no_titles)

lemma scenario_config2_lookups:
  "(scenario_config(ustr ''output_dir'' \<mapsto> VStr d)) (ustr ''topic'')
     = Some (VStr (ustr ''weight loss for beginners''))"
  "(scenario_config(ustr ''output_dir'' \<mapsto> VStr d)) (ustr ''target_audience'')
     = Some (VStr (ustr ''busy professionals aged 30-50 seeking practical solutions''))"
  "(scenario_config(ustr ''output_dir'' \<mapsto> VStr d)) (ustr ''num_chapters'') = Some (VInt 5)"
  "(scenario_config(ustr ''output_dir'' \<mapsto> VStr d)) (ustr ''intro_min_words'') = Some (VInt 600)"
  "(scenario_config(ustr ''output_dir'' \<mapsto> VStr d)) (ustr ''intro_max_words'') = Some (VInt 900)"
  "(scenario_config(ustr ''output_dir'' \<mapsto> VStr d)) (ustr ''final_min_words'') = Some (VInt 600)"
  "(scenario_config(ustr ''output_dir'' \<mapsto> VStr d)) (ustr ''final_max_words'') = Some (VInt 900)"
  "(scenario_config(ustr ''output_dir'' \<mapsto> VStr d)) (ustr ''review_min_words'') = Some (VInt 300)"
  "(scenario_config(ustr ''output_dir'' \<mapsto> VStr d)) (ustr ''review_max_words'') = Some (VInt 500)"
  by (simp_all add: scenario_lookups)

lemma scenario_fallback_titles:
  "fallback_titles (scenario_config(ustr ''output_dir'' \<mapsto> VStr d)) =
     Inr [ustr ''Chapter 1'', ustr ''Chapter 2'', ustr ''Chapter 3'', ustr ''Chapter 4'',
          ustr ''Chapter 5'']"
  by (simp add: fallback_titles_def get_default_def scenario_lookups)
     (simp add: upt_rec str_nat.simps ustr_def)

lemma scenario_write_chapters:
  "write_chapters config None (List.enumerate 1 [ustr ''Chapter 1'', ustr ''Chapter 2'',
       ustr ''Chapter 3'', ustr ''Chapter 4'', ustr ''Chapter 5''])
     = Inr scenario_chapters"
  by (simp add: chapter_text_def scenario_chapters_def str_nat.simps ustr_def)

lemma scenario_stage_4:
  "(case (if extract_chapter_titles scenario_outline = []
          then fallback_titles (scenario_config(ustr ''output_dir'' \<mapsto> VStr d))
          else Inr (extract_chapter_titles scenario_outline)) of
      Inl e \<Rightarrow> Inl e
    | Inr titles \<Rightarrow> write_chapters (scenario_config(ustr ''output_dir'' \<mapsto> VStr d)) None
        (List.enumerate 1 titles))
     = Inr scenario_chapters"
  by (simp only: scenario_no_titles simp_thms if_True scenario_fallback_titles sum.case
      scenario_write_chapters)

lemma scenario_interactive: "stage_7_interactive scenario_chapters client = scenario_elements"
  by (simp add: stage_7_interactive_def scenario_chapters_def scenario_elements_def)
     (simp add: upt_rec str_nat.simps ustr_def)

lemma scenario_mock_replies:
  "mock_generate (ustr ''Write an introductory section for the eBook on '' @ 39
      # py_str (VStr (ustr ''weight loss for beginners'')) @ 39 # ustr ''. Target length ''
      @ py_str (VInt 600) @ ustr ''-'' @ py_str (VInt 900) @ ustr '' words.'')
     = Inr mock_outline_text"
  "mock_generate (ustr ''Write final thoughts for the eBook on '' @ 39
      # py_str (VStr (ustr ''weight loss for beginners'')) @ 39 # ustr ''. Target length ''
      @ py_str (VInt 600) @ ustr ''-'' @ py_str (VInt 900) @ ustr '' words.'')
     = Inr mock_outline_text"
  "mock_generate (ustr ''Write a short call-to-action asking readers to leave a review for the eBook. Target length ''
      @ py_str (VInt 300) @ ustr ''-'' @ py_str (VInt 500) @ ustr '' words.'')
     = Inr mock_outline_text"
  by (simp_all add: mock_generate_def text_eval)

lemma scenario_front:
  assumes "r_config res = scenario_config(ustr ''output_dir'' \<mapsto> VStr d)"
  shows "title_page res = Inr (ustr ''# Weight Loss For Beginners\<newline>\<newline>''
     @ ustr ''*An eBook for busy professionals aged 30-50 seeking practical solutions*\<newline>\<newline>''
     @ ustr ''---\<newline>\<newline>'')"
  by (simp add: title_page_def assms getitem_def scenario_lookups title_scenario py_str_def)
     (simp add: ustr_def)

lemma scenario_sections:
  assumes "r_config res = scenario_config(ustr ''output_dir'' \<mapsto> VStr d)"
  shows "intro_block res None =
      Inr (ustr ''# Introduction\<newline>\<newline>'' @ mock_outline_text @ ustr ''\<newline>\<newline>---\<newline>\<newline>'')"
    and "final_block res None =
      Inr (ustr ''# Final Thoughts\<newline>\<newline>'' @ mock_outline_text @ ustr ''\<newline>\<newline>---\<newline>\<newline>'')"
    and "review_block res None =
      Inr (ustr ''# We'' @ [39] @ ustr ''d Love Your Review\<newline>\<newline>'' @ mock_outline_text
           @ ustr ''\<newline>\<newline>---\<newline>\<newline>'')"
  by (simp_all add: intro_block_def final_block_def review_block_def assms get_default_def
        getitem_def truthy_def scenario_lookups write_section_with_stream_def or_mock_def
        MockClient_def scenario_mock_replies strip_mock_outline_text)
     (simp_all add: ustr_def)

lemma scenario_chapters_block:
  assumes "r_optimized_chapters res = Some scenario_chapters"
  shows "chapters_block res =
     ustr ''# Chapter 1: Chapter 1\<newline>\<newline>Content for Chapter 1...\<newline>\<newline>---\<newline>\<newline>''
     @ ustr ''# Chapter 2: Chapter 2\<newline>\<newline>Content for Chapter 2...\<newline>\<newline>---\<newline>\<newline>''
     @ ustr ''# Chapter 3: Chapter 3\<newline>\<newline>Content for Chapter 3...\<newline>\<newline>---\<newline>\<newline>''
     @ ustr ''# Chapter 4: Chapter 4\<newline>\<newline>Content for Chapter 4...\<newline>\<newline>---\<newline>\<newline>''
     @ ustr ''# Chapter 5: Chapter 5\<newline>\<newline>Content for Chapter 5...\<newline>\<newline>''"
  by (simp add: chapters_block_def assms scenario_chapters_def chapter_block_def ustr_def)

lemma scenario_appendix_block:
  assumes "r_interactive_elements res = Some scenario_elements"
  shows "appendix_block res =
     ustr ''\<newline>\<newline>---\<newline>\<newline># Appendix: Interactive Tools\<newline>\<newline>''
     @ ustr ''## Progress Tracker - Chapter 1\<newline>Type: Printable Tracker\<newline>Track your progress\<newline>\<newline>''
     @ ustr ''## Progress Tracker - Chapter 2\<newline>Type: Printable Tracker\<newline>Track your progress\<newline>\<newline>''
     @ ustr ''## Progress Tracker - Chapter 3\<newline>Type: Printable Tracker\<newline>Track your progress\<newline>\<newline>''
     @ ustr ''## Progress Tracker - Chapter 4\<newline>Type: Printable Tracker\<newline>Track your progress\<newline>\<newline>''
     @ ustr ''## Progress Tracker - Chapter 5\<newline>Type: Printable Tracker\<newline>Track your progress\<newline>\<newline>''"
  by (simp add: appendix_block_def assms scenario_elements_def element_block_def ustr_def)

lemma scenario_ebook_document:
  assumes "r_config res = scenario_config(ustr ''output_dir'' \<mapsto> VStr d)"
    and "r_toc res = Some toc_placeholder"
    and "r_optimized_chapters res = Some scenario_chapters"
    and "r_interactive_elements res = Some scenario_elements"
  shows "ebook_document res None = Inr scenario_document"
  by (simp add: ebook_document_def scenario_front [OF assms(1)] scenario_sections [OF assms(1)]
      toc_block_def assms(2) scenario_chapters_block [OF assms(3)]
      scenario_appendix_block [OF assms(4)] scenario_document_def)

lemma scenario_queries:
  "stage_1_seo_queries scenario_config None =
     Inr [VStr (ustr ''weight''), VStr (ustr ''weight guide''), VStr (ustr ''weight tips''),
          VStr (ustr ''how to weight''), VStr (ustr ''weight for beginners'')]"
proof -
  obtain prompt where p: "stage_1_prompt scenario_config = Inr prompt"
    using stage_1_prompt_ok [OF scenario_keys] by blast
  show ?thesis
    using stage_1_without_backend [OF p scenario_lookups(2)]
    by (simp add: py_str_def ustr_def)
qed

lemma scenario_join:
  "join_values [10] [VStr (ustr ''weight''), VStr (ustr ''weight guide''), VStr (ustr ''weight tips''),
          VStr (ustr ''how to weight''), VStr (ustr ''weight for beginners'')]
     = Inr (ustr ''weight\<newline>weight guide\<newline>weight tips\<newline>how to weight\<newline>weight for beginners'')"
  by (simp add: join_values_def ustr_def)

lemma scenario_cover:
  "\<exists>cover. stage_6_cover (scenario_config(ustr ''output_dir'' \<mapsto> VStr d)) first None = Inr cover"
  by (simp add: stage_6_cover_def getitem_def scenario_lookups)

lemma scenario_run:
  assumes "json_metadata h (scenario_config(ustr ''output_dir'' \<mapsto> VStr output_dir))
      (output_dir, ustr ''FINAL_EBOOK.md'') = Inr metadata"
  shows "\<exists>res fs'. execute_pipeline h scenario_config output_dir None fs = Inr (res, fs')
     \<and> r_toc res = Some toc_placeholder
     \<and> r_optimized_chapters res = Some scenario_chapters
     \<and> r_interactive_elements res = Some scenario_elements
     \<and> fs' (output_dir, ustr ''FINAL_EBOOK.md'') = Some scenario_document"
proof -
  let ?c2 = "scenario_config(ustr ''output_dir'' \<mapsto> VStr output_dir)"
  let ?queries = "[VStr (ustr ''weight''), VStr (ustr ''weight guide''), VStr (ustr ''weight tips''),
          VStr (ustr ''how to weight''), VStr (ustr ''weight for beginners'')]"
  obtain first others where ch: "scenario_chapters = first # others"
    by (simp add: scenario_chapters_def)
  obtain cover where 6: "stage_6_cover ?c2 first None = Inr cover"
    using scenario_cover by blast
  define res where "res = \<lparr>r_config = ?c2, r_queries = Some ?queries,
            r_outline = Some scenario_outline,
            r_toc = Some (stage_3_toc scenario_outline None), r_chapters = Some (first # others),
            r_optimized_chapters = Some (first # others),
            r_cover_prompt = Some cover,
            r_interactive_elements = Some (stage_7_interactive (first # others) None),
            r_diagram_prompts = Some (stage_8_diagrams (first # others) None),
            r_background_prompts = Some (stage_9_backgrounds (first # others) None),
            r_output_dir = output_dir\<rparr>"
  have fields: "r_config res = ?c2" "r_toc res = Some toc_placeholder"
    "r_optimized_chapters res = Some scenario_chapters"
    "r_interactive_elements res = Some scenario_elements"
    by (simp_all add: res_def scenario_toc ch [symmetric] scenario_interactive)
  have 8: "ebook_document res None = Inr scenario_document"
    by (rule scenario_ebook_document [OF fields])
  have 5: "(case (if extract_chapter_titles scenario_outline = [] then fallback_titles ?c2
            else Inr (extract_chapter_titles scenario_outline)) of
        Inl e \<Rightarrow> Inl e
      | Inr titles \<Rightarrow> write_chapters ?c2 None (List.enumerate 1 titles))
        = Inr (first # others)"
    by (simp only: scenario_stage_4 ch)
  obtain fs' where "execute_pipeline h scenario_config output_dir None fs = Inr (res, fs')"
    and "fs' (output_dir, ustr ''FINAL_EBOOK.md'') = Some scenario_document"
    using execute_pipeline_run [OF scenario_queries scenario_join scenario_stage_2 refl 5 6
        res_def 8 assms, of fs]
    by blast
  with fields show ?thesis by blast
qed

lemma scenario_config_built:
  "generate_config_from_topic safe_load (ustr ''weight loss for beginners'') None
       = Inr (add_system_defaults scenario_defaults)
   \<and> apply_template_defaults (add_system_defaults scenario_defaults) (ustr ''standard'')
       = scenario_config"
  by (simp add: scenario_builder scenario_config_def)

lemma placeholder_entries: "numbered_entries toc_placeholder = []"
proof -
  have l: "splitlines toc_placeholder =
      [ustr ''# Table of Contents'', [], ustr ''(Outline parsing found no chapters)'']"
    by (simp add: toc_placeholder_def ustr_def is_linebreak_def)
  have "\<not> is_numbered_entry (ustr ''# Table of Contents'')" "\<not> is_numbered_entry []"
    "\<not> is_numbered_entry (ustr ''(Outline parsing found no chapters)'')"
    by (simp_all add: is_numbered_entry_def seq_def plus_def is_ascii_digit_def ustr_def)
  then show ?thesis
    by (simp add: numbered_entries_def l)
qed

lemma scenario_counts: "length scenario_chapters = 5" "length scenario_elements = 5"
  by (simp_all add: scenario_chapters_def scenario_elements_def)

lemma scenario_title_line:
  "startswith scenario_document (ustr ''# Weight Loss For Beginners\<newline>'')"
  by (simp add: scenario_document_def ustr_def)

lemma plain_host_metadata: "json_metadata plain_host config path = Inr (ustr ''{}'')"
  by (simp add: plain_host_def)

text \<open>
  C1, as stated, fails: in the scenario the table of contents that goes into the final
  document is the fixed placeholder, which has no numbered entry. The fallback outline
  has the bullets \<open>- Chapter 1\<close> to \<open>- Chapter 5\<close>, none of which matches the chapter
  pattern, and stage 3 has no fallback titles: those belong to stage 4.
\<close>

theorem fallback_toc_is_placeholder:
  "r_toc (fst (projr (execute_pipeline plain_host scenario_config (ustr ''output'') None no_files)))
     = Some toc_placeholder
   \<and> numbered_entries toc_placeholder = []
   \<and> snd (projr (execute_pipeline plain_host scenario_config (ustr ''output'') None no_files))
        (ustr ''output'', ustr ''FINAL_EBOOK.md'') = Some scenario_document"
proof -
  obtain res fs' where
    "execute_pipeline plain_host scenario_config (ustr ''output'') None no_files = Inr (res, fs')"
    "r_toc res = Some toc_placeholder"
    "fs' (ustr ''output'', ustr ''FINAL_EBOOK.md'') = Some scenario_document"
    using scenario_run [OF plain_host_metadata] by blast
  then show ?thesis
    by (simp add: placeholder_entries)
qed

text \<open>
  C1, amended: in the end-to-end fallback scenario (topic \<open>weight loss for beginners\<close>,
  no backend, template \<open>standard\<close>) the pipeline returns, and the final document is
  \<open>scenario_document\<close>: it starts with the title line \<open># Weight Loss For Beginners\<close>,
  its table of contents is the fixed placeholder without numbered entries, it has the
  five chapters with the fallback titles Chapter 1 to Chapter 5, and its appendix has
  one interactive-element block for each of the five chapters.
\<close>

theorem fallback_scenario_document:
  assumes "json_metadata h (scenario_config(ustr ''output_dir'' \<mapsto> VStr output_dir))
      (output_dir, ustr ''FINAL_EBOOK.md'') = Inr metadata"
  shows "generate_config_from_topic safe_load (ustr ''weight loss for beginners'') None
       = Inr (add_system_defaults scenario_defaults)
   \<and> apply_template_defaults (add_system_defaults scenario_defaults) (ustr ''standard'')
       = scenario_config
   \<and> (\<exists>res fs'. execute_pipeline h scenario_config output_dir None fs = Inr (res, fs')
        \<and> r_toc res = Some toc_placeholder
        \<and> r_optimized_chapters res = Some scenario_chapters
        \<and> r_interactive_elements res = Some scenario_elements
        \<and> fs' (output_dir, ustr ''FINAL_EBOOK.md'') = Some scenario_document)
   \<and> startswith scenario_document (ustr ''# Weight Loss For Beginners\<newline>'')
   \<and> numbered_entries toc_placeholder = []
   \<and> length scenario_chapters = 5
   \<and> length scenario_elements = 5"
  using scenario_config_built [of safe_load] scenario_run [OF assms, of fs] scenario_title_line
    placeholder_entries scenario_counts
  by (intro conjI) simp_all

theorem fallback_scenario_document_witness:
  "\<exists>res fs'. execute_pipeline plain_host scenario_config (ustr ''output'') None no_files
       = Inr (res, fs')
     \<and> r_toc res = Some toc_placeholder
     \<and> r_optimized_chapters res = Some scenario_chapters
     \<and> r_interactive_elements res = Some scenario_elements
     \<and> fs' (ustr ''output'', ustr ''FINAL_EBOOK.md'') = Some scenario_document"
proof -
  have h: "json_metadata plain_host (scenario_config(ustr ''output_dir'' \<mapsto> VStr (ustr ''output'')))
      (ustr ''output'', ustr ''FINAL_EBOOK.md'') = Inr (ustr ''{}'')"
    by (rule plain_host_metadata)
  show ?thesis
    by (rule fallback_scenario_document [OF h, of rejecting_yaml no_files,
          THEN conjunct2, THEN conjunct2, THEN conjunct1])
qed

end
